theory Spec2Isabelle
  imports Complex_Main "HOL-Library.AList"
begin

section \<open>Values, errors and data frames\<close>

text \<open>
  A cell of a pandas column. \<open>Null\<close> stands for both \<open>None\<close> and \<open>NaN\<close> (pandas treats them
  alike in \<open>isnull\<close>, \<open>fillna\<close>, \<open>mode\<close> and arithmetic). Floating-point numbers are
  idealised as rationals: rounding, overflow and the sign of zero are left out.
  \<open>Infty True\<close> and \<open>Infty False\<close> are the IEEE infinities \<open>+inf\<close> and \<open>-inf\<close>, which
  arise from division by zero.
\<close>

datatype cell = Null | Num rat | Infty bool | Str string

datatype key = Label string | Pos nat

datatype error =
    KeyError key
  | TypeError
  | ValueError
  | OverflowError
  | IndexError
  | FileNotFoundError
  | FileExistsError
  | NotADirectoryError
  | IsADirectoryError
  | RuntimeError

type_synonym column = "cell list"

text \<open>A DataFrame: the length of its index and its columns in order.\<close>

record frame =
  nrows :: nat
  cols :: "(string \<times> column) list"

subsection \<open>Raising and sequencing\<close>

fun ebind :: "error + 'a \<Rightarrow> ('a \<Rightarrow> error + 'b) \<Rightarrow> error + 'b" where
  "ebind (Inl e) f = Inl e"
| "ebind (Inr x) f = f x"

fun mapE :: "('a \<Rightarrow> error + 'b) \<Rightarrow> 'a list \<Rightarrow> error + 'b list" where
  "mapE f [] = Inr []"
| "mapE f (x # xs) = ebind (f x) (\<lambda>y. ebind (mapE f xs) (\<lambda>ys. Inr (y # ys)))"

text \<open>\<open>xs[0]\<close> on the result of a pandas reduction: a \<open>KeyError\<close> when it is empty.\<close>

definition item0 :: "'a list \<Rightarrow> error + 'a" where
  "item0 xs = (case xs of [] \<Rightarrow> Inl (KeyError (Pos 0)) | x # _ \<Rightarrow> Inr x)"

subsection \<open>Columns of a frame\<close>

definition columns :: "frame \<Rightarrow> string list" where
  "columns df = map fst (cols df)"

text \<open>\<open>name in df.columns\<close>\<close>

definition has_col :: "frame \<Rightarrow> string \<Rightarrow> bool" where
  "has_col df c = (c \<in> set (columns df))"

text \<open>\<open>df[name]\<close>: a \<open>KeyError\<close> on a label that is not a column.\<close>

definition getitem :: "frame \<Rightarrow> string \<Rightarrow> error + column" where
  "getitem df c = (case map_of (cols df) c of None \<Rightarrow> Inl (KeyError (Label c)) | Some col \<Rightarrow> Inr col)"

text \<open>\<open>df[name] = col\<close>: replaces the column where it stands, or appends a new one.\<close>

definition setitem :: "frame \<Rightarrow> string \<Rightarrow> column \<Rightarrow> frame" where
  "setitem df c col = df\<lparr>cols := AList.update c col (cols df)\<rparr>"

text \<open>\<open>df[name] = v\<close> for a scalar \<open>v\<close>: broadcast over the index.\<close>

definition setitem_scalar :: "frame \<Rightarrow> string \<Rightarrow> cell \<Rightarrow> frame" where
  "setitem_scalar df c v = setitem df c (replicate (nrows df) v)"

text \<open>\<open>df.drop(columns=names)\<close> raises on a missing label; with \<open>errors='ignore'\<close> it does not.\<close>

definition drop_ignore :: "frame \<Rightarrow> string list \<Rightarrow> frame" where
  "drop_ignore df names = df\<lparr>cols := filter (\<lambda>p. fst p \<notin> set names) (cols df)\<rparr>"

definition drop_columns :: "frame \<Rightarrow> string list \<Rightarrow> error + frame" where
  "drop_columns df names =
     (case filter (\<lambda>n. \<not> has_col df n) names of
        [] \<Rightarrow> Inr (drop_ignore df names)
      | n # _ \<Rightarrow> Inl (KeyError (Label n)))"

text \<open>\<open>df[[n1, n2, ...]]\<close>: the named columns in the order asked for.\<close>

definition select_columns :: "frame \<Rightarrow> string list \<Rightarrow> error + frame" where
  "select_columns df names =
     ebind (mapE (\<lambda>n. ebind (getitem df n) (\<lambda>col. Inr (n, col))) names)
       (\<lambda>cs. Inr (df\<lparr>cols := cs\<rparr>))"

text \<open>\<open>pd.concat([a, b], axis=1)\<close> of two frames over the same index.\<close>

definition concat_columns :: "frame \<Rightarrow> frame \<Rightarrow> frame" where
  "concat_columns a b = a\<lparr>cols := cols a @ cols b\<rparr>"

text \<open>
  A frame is well formed when its labels are distinct (as \<open>read_csv\<close> and a frame built
  from a dict give them) and every column is as long as the index. Where a label occurs
  twice, \<open>getitem\<close> and \<open>setitem\<close> here act on its first column (pandas would hand out
  both); the frames of interest have distinct labels.
\<close>

definition wf_frame :: "frame \<Rightarrow> bool" where
  "wf_frame df = (distinct (columns df) \<and> list_all (\<lambda>p. length (snd p) = nrows df) (cols df))"

subsection \<open>Arithmetic and order on cells\<close>

text \<open>
  Element-wise arithmetic: an operation with a null operand is null; infinities follow
  IEEE; a string operand raises \<open>TypeError\<close>, except that two strings concatenate under \<open>+\<close>.
\<close>

fun cadd :: "cell \<Rightarrow> cell \<Rightarrow> error + cell" where
  "cadd Null _ = Inr Null"
| "cadd _ Null = Inr Null"
| "cadd (Str a) (Str b) = Inr (Str (a @ b))"
| "cadd (Str _) _ = Inl TypeError"
| "cadd _ (Str _) = Inl TypeError"
| "cadd (Num a) (Num b) = Inr (Num (a + b))"
| "cadd (Infty s) (Num _) = Inr (Infty s)"
| "cadd (Num _) (Infty s) = Inr (Infty s)"
| "cadd (Infty s) (Infty t) = Inr (if s = t then Infty s else Null)"

fun cneg :: "cell \<Rightarrow> cell" where
  "cneg (Num a) = Num (- a)"
| "cneg (Infty s) = Infty (\<not> s)"
| "cneg c = c"

fun csub :: "cell \<Rightarrow> cell \<Rightarrow> error + cell" where
  "csub Null _ = Inr Null"
| "csub _ Null = Inr Null"
| "csub (Str _) _ = Inl TypeError"
| "csub _ (Str _) = Inl TypeError"
| "csub a b = cadd a (cneg b)"

fun cmul :: "cell \<Rightarrow> cell \<Rightarrow> error + cell" where
  "cmul Null _ = Inr Null"
| "cmul _ Null = Inr Null"
| "cmul (Str _) _ = Inl TypeError"
| "cmul _ (Str _) = Inl TypeError"
| "cmul (Num a) (Num b) = Inr (Num (a * b))"
| "cmul (Infty s) (Num b) = Inr (if b = 0 then Null else Infty (s = (0 < b)))"
| "cmul (Num a) (Infty s) = Inr (if a = 0 then Null else Infty (s = (0 < a)))"
| "cmul (Infty s) (Infty t) = Inr (Infty (s = t))"

fun cdiv :: "cell \<Rightarrow> cell \<Rightarrow> error + cell" where
  "cdiv Null _ = Inr Null"
| "cdiv _ Null = Inr Null"
| "cdiv (Str _) _ = Inl TypeError"
| "cdiv _ (Str _) = Inl TypeError"
| "cdiv (Num a) (Num b) =
     Inr (if b = 0 then (if a = 0 then Null else Infty (0 < a)) else Num (a / b))"
| "cdiv (Infty s) (Num b) = Inr (Infty (s = (0 \<le> b)))"
| "cdiv (Num _) (Infty _) = Inr (Num 0)"
| "cdiv (Infty _) (Infty _) = Inr Null"

text \<open>Element-wise operation on two columns over the same index.\<close>

definition col_op :: "(cell \<Rightarrow> cell \<Rightarrow> error + cell) \<Rightarrow> column \<Rightarrow> column \<Rightarrow> error + column" where
  "col_op f xs ys = mapE (\<lambda>(x, y). f x y) (zip xs ys)"

text \<open>
  The order used for sorting: numbers by value between the infinities, strings
  lexicographically by code point (and, so that the order is total, after the numbers).
\<close>

fun str_le :: "string \<Rightarrow> string \<Rightarrow> bool" where
  "str_le [] _ = True"
| "str_le (_ # _) [] = False"
| "str_le (a # as) (b # bs) =
     ((of_char a :: nat) < of_char b \<or> (a = b \<and> str_le as bs))"

fun cell_le :: "cell \<Rightarrow> cell \<Rightarrow> bool" where
  "cell_le (Num a) (Num b) = (a \<le> b)"
| "cell_le (Infty s) (Infty t) = (t \<or> \<not> s)"
| "cell_le (Infty s) (Num _) = (\<not> s)"
| "cell_le (Num _) (Infty t) = t"
| "cell_le (Str a) (Str b) = str_le a b"
| "cell_le (Str _) _ = False"
| "cell_le _ (Str _) = True"
| "cell_le Null _ = True"
| "cell_le _ Null = False"

fun is_number :: "cell \<Rightarrow> bool" where
  "is_number (Num _) = True"
| "is_number (Infty _) = True"
| "is_number _ = False"

text \<open>\<open>x < y\<close> and \<open>x > y\<close> in a boolean mask: false whenever an operand is null.\<close>

definition cell_lt :: "cell \<Rightarrow> cell \<Rightarrow> bool" where
  "cell_lt x y = (is_number x \<and> is_number y \<and> \<not> cell_le y x)"

definition cell_gt :: "cell \<Rightarrow> cell \<Rightarrow> bool" where
  "cell_gt x y = cell_lt y x"

fun insort_cell :: "cell \<Rightarrow> column \<Rightarrow> column" where
  "insort_cell x [] = [x]"
| "insort_cell x (y # ys) = (if cell_le x y then x # y # ys else y # insort_cell x ys)"

definition sort_cells :: "column \<Rightarrow> column" where
  "sort_cells xs = foldr insort_cell xs []"

subsection \<open>Column statistics and element-wise methods\<close>

definition isnull :: "cell \<Rightarrow> bool" where
  "isnull c = (c = Null)"

definition dropna :: "column \<Rightarrow> column" where
  "dropna col = filter (\<lambda>c. \<not> isnull c) col"

fun is_str :: "cell \<Rightarrow> bool" where
  "is_str (Str _) = True"
| "is_str _ = False"

text \<open>\<open>col.fillna(v)\<close>\<close>

definition fillna :: "cell \<Rightarrow> column \<Rightarrow> column" where
  "fillna v col = map (\<lambda>c. if isnull c then v else c) col"

text \<open>\<open>col.replace(a, b)\<close>: whole cells equal to \<open>a\<close> become \<open>b\<close>.\<close>

definition replace_value :: "cell \<Rightarrow> cell \<Rightarrow> column \<Rightarrow> column" where
  "replace_value a b col = map (\<lambda>c. if c = a then b else c) col"

text \<open>
  \<open>col.median()\<close>: nulls are skipped; null when nothing is left; \<open>TypeError\<close> on a column
  that holds a string.
\<close>

definition median :: "column \<Rightarrow> error + cell" where
  "median col =
     (if list_ex is_str col then Inl TypeError
      else let xs = sort_cells (dropna col); n = length xs in
        if n = 0 then Inr Null
        else if odd n then Inr (xs ! (n div 2))
        else ebind (cadd (xs ! (n div 2 - 1)) (xs ! (n div 2))) (\<lambda>s. cdiv s (Num 2)))"

text \<open>
  \<open>col.quantile(q)\<close> with linear interpolation between the two nearest order
  statistics; nulls are skipped, and a column that holds a string raises as for the
  median.
\<close>

definition quantile :: "rat \<Rightarrow> column \<Rightarrow> error + cell" where
  "quantile q col =
     (if list_ex is_str col then Inl TypeError
      else let xs = sort_cells (dropna col); n = length xs in
        if n = 0 then Inr Null
        else let h = of_nat (n - 1) * q;
                 i = nat \<lfloor>h\<rfloor>;
                 lo = xs ! i;
                 hi = xs ! min (i + 1) (n - 1)
             in ebind (csub hi lo) (\<lambda>d. ebind (cmul d (Num (h - of_nat i))) (\<lambda>e. cadd lo e)))"

text \<open>
  \<open>col.mode()\<close>: the most frequent non-null values, sorted; empty when every cell is
  null.
\<close>

definition mode :: "column \<Rightarrow> column" where
  "mode col =
     (let vs = dropna col;
          best = fold max (map (count_list vs) vs) 0
      in sort_cells (remdups (filter (\<lambda>v. count_list vs v = best) vs)))"

text \<open>\<open>col.map(dict)\<close>: a cell that is not a key of the dict becomes null.\<close>

definition map_values :: "(string \<times> rat) list \<Rightarrow> column \<Rightarrow> column" where
  "map_values d col =
     map (\<lambda>c. case c of
            Str s \<Rightarrow> (case map_of d s of Some v \<Rightarrow> Num v | None \<Rightarrow> Null)
          | _ \<Rightarrow> Null) col"

text \<open>
  \<open>int(x)\<close> of a float truncates towards zero and raises on NaN and on an infinity;
  \<open>col.astype(int)\<close> does so cell by cell, with a \<open>ValueError\<close> for both. The columns that
  are cast below come out of \<open>map\<close>, \<open>to_numeric\<close> or \<open>get_dummies\<close> and hold no strings;
  a string cell is made to raise.
\<close>

definition trunc :: "rat \<Rightarrow> rat" where
  "trunc r = (if 0 \<le> r then of_int \<lfloor>r\<rfloor> else of_int \<lceil>r\<rceil>)"

fun py_int :: "cell \<Rightarrow> error + cell" where
  "py_int (Num r) = Inr (Num (trunc r))"
| "py_int (Infty _) = Inl OverflowError"
| "py_int _ = Inl ValueError"

fun int_cast :: "cell \<Rightarrow> error + cell" where
  "int_cast (Num r) = Inr (Num (trunc r))"
| "int_cast _ = Inl ValueError"

definition astype_int :: "column \<Rightarrow> error + column" where
  "astype_int col = mapE int_cast col"

text \<open>
  \<open>pd.to_numeric(col.astype(str).replace('3+', '3'), errors='coerce')\<close>, cell by cell. How
  the library reads a string as a number is the library's own: the reader is a parameter
  \<open>rd\<close> of the transformer. It answers with a number, with an infinity, or that the string
  cannot be read, which \<open>errors='coerce'\<close> turns into null. A number printed by
  \<open>astype(str)\<close> reads back as itself and a printed null reads as null, so only string
  cells are rewritten and read.
\<close>

datatype reading = Number rat | Infinite bool | Unreadable

type_synonym reader = "string \<Rightarrow> reading"

definition to_numeric :: "reader \<Rightarrow> cell \<Rightarrow> cell" where
  "to_numeric rd c =
     (case c of
        Str s \<Rightarrow> (case rd s of Number r \<Rightarrow> Num r | Infinite b \<Rightarrow> Infty b | Unreadable \<Rightarrow> Null)
      | _ \<Rightarrow> c)"

definition coerce_dependents :: "reader \<Rightarrow> column \<Rightarrow> column" where
  "coerce_dependents rd col = map (to_numeric rd) (replace_value (Str ''3+'') (Str ''3'') col)"

text \<open>
  \<open>pd.get_dummies(col, prefix=p)\<close>: one indicator column per distinct non-null value, named
  \<open>p_\<close> followed by the printed value.
\<close>

definition digit_char :: "nat \<Rightarrow> char" where
  "digit_char d = char_of (48 + d)"

fun show_nat :: "nat \<Rightarrow> string" where
  "show_nat n = (if n < 10 then [digit_char n] else show_nat (n div 10) @ [digit_char (n mod 10)])"

fun frac_digits :: "nat \<Rightarrow> rat \<Rightarrow> string" where
  "frac_digits 0 r = []"
| "frac_digits (Suc k) r =
     (if r = 0 then []
      else digit_char (nat \<lfloor>r * 10\<rfloor>) # frac_digits k (r * 10 - of_int \<lfloor>r * 10\<rfloor>))"

fun level_label :: "cell \<Rightarrow> string" where
  "level_label (Str s) = s"
| "level_label (Num r) =
     (if r < 0 then ''-'' else []) @ show_nat (nat \<lfloor>\<bar>r\<bar>\<rfloor>) @ ''.'' @
     (let f = frac_digits 17 (\<bar>r\<bar> - of_int \<lfloor>\<bar>r\<bar>\<rfloor>) in if f = [] then ''0'' else f)"
| "level_label (Infty s) = (if s then ''inf'' else ''-inf'')"
| "level_label Null = ''nan''"

definition indicator :: "cell \<Rightarrow> column \<Rightarrow> column" where
  "indicator v col = map (\<lambda>c. Num (if c = v then 1 else 0)) col"

definition get_dummies :: "nat \<Rightarrow> column \<Rightarrow> string \<Rightarrow> frame" where
  "get_dummies n col prefix =
     \<lparr>nrows = n,
      cols = map (\<lambda>v. (prefix @ ''_'' @ level_label v, indicator v col))
               (sort_cells (remdups (dropna col)))\<rparr>"

section \<open>The feature transformer: \<open>clean_raw_df\<close>\<close>

text \<open>\<open>df[c] = f(df[c])\<close>, and the same under the guard \<open>if c in df.columns\<close>.\<close>

definition assign_column :: "string \<Rightarrow> (column \<Rightarrow> error + column) \<Rightarrow> frame \<Rightarrow> error + frame" where
  "assign_column c f df =
     ebind (getitem df c) (\<lambda>col. ebind (f col) (\<lambda>col'. Inr (setitem df c col')))"

definition update_column :: "string \<Rightarrow> (column \<Rightarrow> error + column) \<Rightarrow> frame \<Rightarrow> error + frame" where
  "update_column c f df = (if has_col df c then assign_column c f df else Inr df)"

text \<open>Statements in sequence; the first exception ends the run.\<close>

fun run_steps :: "(frame \<Rightarrow> error + frame) list \<Rightarrow> frame \<Rightarrow> error + frame" where
  "run_steps [] df = Inr df"
| "run_steps (s # ss) df = ebind (s df) (run_steps ss)"

subsection \<open>1) Basic imputations\<close>

text \<open>Lines 21 to 50. Only Credit_History guards against an empty mode.\<close>

definition fill_median :: "column \<Rightarrow> error + column" where
  "fill_median col = ebind (median col) (\<lambda>m. Inr (fillna m col))"

definition fill_const :: "cell \<Rightarrow> column \<Rightarrow> error + column" where
  "fill_const v col = Inr (fillna v col)"

text \<open>\<open>col.fillna(col.mode()[0])\<close>\<close>

definition fill_mode :: "column \<Rightarrow> error + column" where
  "fill_mode col = ebind (item0 (mode col)) (\<lambda>m. Inr (fillna m col))"

definition fill_Credit_History :: "column \<Rightarrow> error + column" where
  "fill_Credit_History col =
     (if mode col \<noteq> [] then ebind (item0 (mode col)) (\<lambda>m. Inr (fillna m col))
      else Inr (fillna (Num 1) col))"

definition imputations :: "(frame \<Rightarrow> error + frame) list" where
  "imputations =
     [update_column ''LoanAmount'' fill_median,
      update_column ''ApplicantIncome'' (fill_const (Num 0)),
      update_column ''CoapplicantIncome'' (fill_const (Num 0)),
      update_column ''Loan_Amount_Term'' fill_mode,
      update_column ''Credit_History'' fill_Credit_History,
      update_column ''Self_Employed'' (fill_const (Str ''No'')),
      update_column ''Gender'' fill_mode,
      update_column ''Married'' fill_mode,
      update_column ''Dependents'' fill_mode]"

subsection \<open>2) Dependents cleanup\<close>

text \<open>Lines 55 to 62.\<close>

definition clean_Dependents :: "reader \<Rightarrow> column \<Rightarrow> error + column" where
  "clean_Dependents rd col =
     (let c = coerce_dependents rd col in
      ebind (if list_ex isnull c then ebind (item0 (mode c)) (\<lambda>m. Inr (fillna m c)) else Inr c)
        astype_int)"

subsection \<open>3) Engineered numeric features\<close>

text \<open>
  Lines 68 to 89. The zero replacement of lines 76 and 77 takes the median of the column
  as it is then, or 1.0 when every cell is null, and replaces the cells equal to 0 only.
\<close>

definition total_income :: "frame \<Rightarrow> error + frame" where
  "total_income df =
     (if has_col df ''ApplicantIncome'' \<and> has_col df ''CoapplicantIncome'' then
        ebind (getitem df ''ApplicantIncome'') (\<lambda>a.
        ebind (getitem df ''CoapplicantIncome'') (\<lambda>c.
        ebind (col_op cadd a c) (\<lambda>t.
        Inr (setitem df ''TotalIncome'' t))))
      else Inr (setitem_scalar df ''TotalIncome'' Null))"

definition income_to_loan_ratio :: "frame \<Rightarrow> error + frame" where
  "income_to_loan_ratio df =
     (if has_col df ''LoanAmount'' then
        ebind (getitem df ''LoanAmount'') (\<lambda>la.
        ebind (if \<not> list_all isnull la then median la else Inr (Num 1)) (\<lambda>loan_median.
        let df1 = setitem df ''LoanAmount'' (replace_value (Num 0) loan_median la) in
        ebind (getitem df1 ''TotalIncome'') (\<lambda>ti.
        ebind (getitem df1 ''LoanAmount'') (\<lambda>la1.
        ebind (col_op cdiv ti la1) (\<lambda>r.
        Inr (setitem df1 ''Income_to_Loan_Ratio'' r))))))
      else Inr (setitem_scalar df ''Income_to_Loan_Ratio'' Null))"

text \<open>\<open>np.where(co == 0, a, a / co)\<close>: both branches are computed, then chosen per row.\<close>

definition applicant_to_coapp_ratio :: "frame \<Rightarrow> error + frame" where
  "applicant_to_coapp_ratio df =
     (if has_col df ''ApplicantIncome'' \<and> has_col df ''CoapplicantIncome'' then
        ebind (getitem df ''CoapplicantIncome'') (\<lambda>co.
        ebind (getitem df ''ApplicantIncome'') (\<lambda>a.
        ebind (col_op cdiv a co) (\<lambda>q.
        Inr (setitem df ''Applicant_to_Coapp_Ratio''
               (map (\<lambda>(c, x, y). if c = Num 0 then x else y) (zip co (zip a q)))))))
      else Inr df)"

subsection \<open>4) Outlier capping\<close>

text \<open>Lines 95 to 107. The second mask of the IQR clipping reads the column after the first.\<close>

definition cap_ApplicantIncome :: "column \<Rightarrow> error + column" where
  "cap_ApplicantIncome col =
     ebind (quantile (99 / 100) col) (\<lambda>cap_val.
     ebind (py_int cap_val) (\<lambda>v.
     Inr (map (\<lambda>x. if cell_gt x cap_val then v else x) col)))"

definition cap_LoanAmount :: "column \<Rightarrow> error + column" where
  "cap_LoanAmount col =
     ebind (quantile (1 / 4) col) (\<lambda>Q1.
     ebind (quantile (3 / 4) col) (\<lambda>Q3.
     ebind (csub Q3 Q1) (\<lambda>IQR.
     ebind (cmul (Num (3 / 2)) IQR) (\<lambda>w.
     ebind (csub Q1 w) (\<lambda>lower.
     ebind (cadd Q3 w) (\<lambda>upper.
     let col1 = map (\<lambda>x. if cell_lt x lower then lower else x) col
     in Inr (map (\<lambda>x. if cell_gt x upper then upper else x) col1)))))))"

subsection \<open>5) Categorical mappings\<close>

text \<open>\<open>col.map(d).fillna(0).astype(int)\<close>\<close>

definition encode_binary :: "(string \<times> rat) list \<Rightarrow> column \<Rightarrow> error + column" where
  "encode_binary d col = astype_int (fillna (Num 0) (map_values d col))"

subsection \<open>6) One-hot encoding of Property_Area\<close>

text \<open>Lines 128 to 139.\<close>

definition property_columns :: "string list" where
  "property_columns = [''Property_Rural'', ''Property_Semiurban'', ''Property_Urban'']"

definition one_hot_Property_Area :: "frame \<Rightarrow> error + frame" where
  "one_hot_Property_Area df =
     (if has_col df ''Property_Area'' then
        ebind (getitem df ''Property_Area'') (\<lambda>pa.
        let prop_dummies =
              fold (\<lambda>col d. if \<not> has_col d col then setitem_scalar d col (Num 0) else d)
                property_columns (get_dummies (nrows df) pa ''Property'')
        in
        ebind (drop_columns df [''Property_Area'']) (\<lambda>rest.
        ebind (select_columns prop_dummies property_columns) (\<lambda>sel.
        run_steps
          [assign_column ''Property_Rural'' astype_int,
           assign_column ''Property_Semiurban'' astype_int,
           assign_column ''Property_Urban'' astype_int]
          (concat_columns rest sel))))
      else Inr df)"

subsection \<open>7) Target mapping\<close>

text \<open>Lines 144 to 146.\<close>

definition map_Loan_Status :: "column \<Rightarrow> error + column" where
  "map_Loan_Status col = Inr (map_values [(''Y'', 1), (''N'', 0)] col)"

subsection \<open>The whole function\<close>

definition dependents_cleanup :: "reader \<Rightarrow> (frame \<Rightarrow> error + frame) list" where
  "dependents_cleanup rd = [update_column ''Dependents'' (clean_Dependents rd)]"

definition engineered_features :: "(frame \<Rightarrow> error + frame) list" where
  "engineered_features = [total_income, income_to_loan_ratio, applicant_to_coapp_ratio]"

definition outlier_capping :: "(frame \<Rightarrow> error + frame) list" where
  "outlier_capping =
     [update_column ''ApplicantIncome'' cap_ApplicantIncome,
      update_column ''LoanAmount'' cap_LoanAmount]"

definition categorical_mappings :: "(frame \<Rightarrow> error + frame) list" where
  "categorical_mappings =
     [update_column ''Gender'' (encode_binary [(''Male'', 1), (''Female'', 0)]),
      update_column ''Married'' (encode_binary [(''Yes'', 1), (''No'', 0)]),
      update_column ''Education'' (encode_binary [(''Graduate'', 1), (''Not Graduate'', 0)]),
      update_column ''Self_Employed'' (encode_binary [(''Yes'', 1), (''No'', 0)])]"

definition target_mapping :: "(frame \<Rightarrow> error + frame) list" where
  "target_mapping = [update_column ''Loan_Status'' map_Loan_Status]"

text \<open>Sections 1 to 5 assign columns of \<open>df\<close>; section 6 builds a new frame; section 7 assigns again.\<close>

definition assignments_1_to_5 :: "reader \<Rightarrow> (frame \<Rightarrow> error + frame) list" where
  "assignments_1_to_5 rd =
     imputations @ dependents_cleanup rd @ engineered_features @ outlier_capping @ categorical_mappings"

definition cleaning_steps :: "reader \<Rightarrow> (frame \<Rightarrow> error + frame) list" where
  "cleaning_steps rd = assignments_1_to_5 rd @ [one_hot_Property_Area] @ target_mapping"

text \<open>
  The function on values: \<open>df.copy()\<close> yields a frame with the same contents, on which
  the statements then run.
\<close>

definition clean_raw_df :: "reader \<Rightarrow> frame \<Rightarrow> error + frame" where
  "clean_raw_df rd df = run_steps (cleaning_steps rd) df"

subsection \<open>The function on references\<close>

text \<open>
  Python passes the frame by reference. The store maps references to frames;
  \<open>fresh\<close> is the next unused reference. An assignment \<open>df[c] = ...\<close> writes into the
  object that \<open>df\<close> refers to; \<open>df.copy()\<close> and \<open>pd.concat\<close> create a new object, to which
  \<open>df\<close> is then bound.
\<close>

record store =
  fresh :: nat
  objects :: "nat \<Rightarrow> frame"

definition alloc :: "frame \<Rightarrow> store \<Rightarrow> nat \<times> store" where
  "alloc f s = (fresh s, s\<lparr>fresh := Suc (fresh s), objects := (objects s)(fresh s := f)\<rparr>)"

definition in_place :: "(frame \<Rightarrow> error + frame) \<Rightarrow> nat \<Rightarrow> store \<Rightarrow> (error + nat) \<times> store" where
  "in_place step r s =
     (case step (objects s r) of
        Inl e \<Rightarrow> (Inl e, s)
      | Inr f \<Rightarrow> (Inr r, s\<lparr>objects := (objects s)(r := f)\<rparr>))"

definition one_hot_ref :: "nat \<Rightarrow> store \<Rightarrow> (error + nat) \<times> store" where
  "one_hot_ref r s =
     (if has_col (objects s r) ''Property_Area'' then
        (case one_hot_Property_Area (objects s r) of
           Inl e \<Rightarrow> (Inl e, s)
         | Inr f \<Rightarrow> (let (r', s') = alloc f s in (Inr r', s')))
      else (Inr r, s))"

fun run_ref_steps :: "(nat \<Rightarrow> store \<Rightarrow> (error + nat) \<times> store) list \<Rightarrow> nat \<Rightarrow> store \<Rightarrow> (error + nat) \<times> store" where
  "run_ref_steps [] r s = (Inr r, s)"
| "run_ref_steps (st # sts) r s =
     (case st r s of
        (Inl e, s') \<Rightarrow> (Inl e, s')
      | (Inr r', s') \<Rightarrow> run_ref_steps sts r' s')"

definition clean_raw_df_ref :: "reader \<Rightarrow> nat \<Rightarrow> store \<Rightarrow> (error + nat) \<times> store" where
  "clean_raw_df_ref rd r s =
     (let (df, s1) = alloc (objects s r) s
      in run_ref_steps
           (map in_place (assignments_1_to_5 rd) @ [one_hot_ref] @ map in_place target_mapping)
           df s1)"

section \<open>The inference endpoint: \<open>predict_loan_status\<close>\<close>

record LoanApplication =
  Loan_ID :: string
  Gender :: string
  Married :: string
  Dependents :: "string option"
  Education :: string
  Self_Employed :: string
  ApplicantIncome :: rat
  CoapplicantIncome :: rat
  LoanAmount :: "rat option"
  Loan_Amount_Term :: "rat option"
  Credit_History :: "rat option"
  Property_Area :: string

text \<open>
  The trained model is an opaque artifact: what it answers on a frame is a parameter.
  \<open>predict\<close> gives a class per row, \<open>predict_proba\<close> a row of class probabilities per row.
\<close>

record classifier =
  predict :: "frame \<Rightarrow> error + int list"
  predict_proba :: "frame \<Rightarrow> error + rat list list"

record response =
  prediction :: int
  probability :: rat

definition opt_num :: "rat option \<Rightarrow> cell" where
  "opt_num x = (case x of None \<Rightarrow> Null | Some r \<Rightarrow> Num r)"

definition opt_str :: "string option \<Rightarrow> cell" where
  "opt_str x = (case x of None \<Rightarrow> Null | Some s \<Rightarrow> Str s)"

text \<open>\<open>pd.DataFrame([application.model_dump()])\<close>: one row, the fields in declaration order.\<close>

definition DataFrame_of :: "LoanApplication \<Rightarrow> frame" where
  "DataFrame_of a =
     \<lparr>nrows = 1,
      cols = [(''Loan_ID'', [Str (Loan_ID a)]),
              (''Gender'', [Str (Gender a)]),
              (''Married'', [Str (Married a)]),
              (''Dependents'', [opt_str (Dependents a)]),
              (''Education'', [Str (Education a)]),
              (''Self_Employed'', [Str (Self_Employed a)]),
              (''ApplicantIncome'', [Num (ApplicantIncome a)]),
              (''CoapplicantIncome'', [Num (CoapplicantIncome a)]),
              (''LoanAmount'', [opt_num (LoanAmount a)]),
              (''Loan_Amount_Term'', [opt_num (Loan_Amount_Term a)]),
              (''Credit_History'', [opt_num (Credit_History a)]),
              (''Property_Area'', [Str (Property_Area a)])]\<rparr>"

text \<open>\<open>a[i]\<close> on a numpy array: \<open>IndexError\<close> out of range.\<close>

definition index :: "'a list \<Rightarrow> nat \<Rightarrow> error + 'a" where
  "index xs i = (if i < length xs then Inr (xs ! i) else Inl IndexError)"

text \<open>The frame handed to the model: lines 41 to 43.\<close>

definition X_new :: "reader \<Rightarrow> LoanApplication \<Rightarrow> error + frame" where
  "X_new rd application =
     ebind (clean_raw_df rd (DataFrame_of application)) (\<lambda>df_clean.
     Inr (drop_ignore df_clean [''Loan_ID'', ''Loan_Status'']))"

text \<open>
  \<open>model\<close> and \<open>feature_cols\<close> are the module's globals, loaded at startup; they are
  parameters here. Lines 44 to 52: the local \<open>prediction\<close> of line 47 is computed and the
  response is built from \<open>pred_class\<close>.
\<close>

definition predict_loan_status ::
  "reader \<Rightarrow> classifier \<Rightarrow> string list \<Rightarrow> LoanApplication \<Rightarrow> error + response" where
  "predict_loan_status rd model feature_cols application =
     ebind (X_new rd application) (\<lambda>X.
     ebind (predict model X) (\<lambda>classes.
     ebind (index classes 0) (\<lambda>pred_class.
     ebind (predict_proba model X) (\<lambda>probs.
     ebind (index probs 0) (\<lambda>row.
     ebind (index row 1) (\<lambda>pred_prob.
     let prediction = (if pred_prob \<ge> 1 / 2 then 1 else 0 :: int)
     in Inr \<lparr>prediction = pred_class, probability = pred_prob\<rparr>))))))"

section \<open>The training orchestrator: \<open>train_and_save\<close>\<close>

text \<open>
  The file system holds the directories that exist and what is stored at each path;
  paths are compared as they are written. Splitting, fitting, the grid search and the
  scoring are the library's: \<open>fit X y\<close> stands for lines 73 to 101 and gives the fitted
  model and its validation AUC, or raises. What the function prints is left out.
\<close>

datatype 'm stored = Csv frame | Pickled_model 'm | Pickled_features "string list"

record 'm filesystem =
  dirs :: "string list"
  files :: "string \<Rightarrow> 'm stored option"

text \<open>A directory that exists: one that was created, or the root.\<close>

definition is_dir :: "'m filesystem \<Rightarrow> string \<Rightarrow> bool" where
  "is_dir fs d = (d \<in> set (dirs fs) \<or> (d \<noteq> [] \<and> list_all (\<lambda>c. c = CHR ''/'') d))"

text \<open>\<open>os.path.exists(p)\<close>.\<close>

definition path_exists :: "'m filesystem \<Rightarrow> string \<Rightarrow> bool" where
  "path_exists fs p = (is_dir fs p \<or> files fs p \<noteq> None)"

text \<open>
  \<open>pd.read_csv(p)\<close>: the table stored at \<open>p\<close>. A path that holds something else raises as a
  parser error does.
\<close>

definition read_csv :: "'m filesystem \<Rightarrow> string \<Rightarrow> error + frame" where
  "read_csv fs path =
     (case files fs path of
        Some (Csv df) \<Rightarrow> Inr df
      | Some _ \<Rightarrow> Inl ValueError
      | None \<Rightarrow> Inl (if is_dir fs path then IsADirectoryError else FileNotFoundError))"

text \<open>A column has dtype \<open>object\<close> when it holds a string.\<close>

definition is_object :: "column \<Rightarrow> bool" where
  "is_object col = list_ex is_str col"

text \<open>Lines 50 to 53.\<close>

definition target_of :: "column \<Rightarrow> error + column" where
  "target_of col =
     (if is_object col \<or> list_ex (\<lambda>c. c = Str ''Y'' \<or> c = Str ''N'') (dropna col)
      then Inr (map_values [(''Y'', 1), (''N'', 0)] col)
      else astype_int col)"

text \<open>
  \<open>pd.get_dummies(X, columns=obj_cols, drop_first=False)\<close>: the other columns stay, then the
  indicator columns of each encoded column follow.
\<close>

definition get_dummies_frame :: "frame \<Rightarrow> string list \<Rightarrow> frame" where
  "get_dummies_frame X obj_cols =
     X\<lparr>cols := filter (\<lambda>p. fst p \<notin> set obj_cols) (cols X) @
               concat (map (\<lambda>p. cols (get_dummies (nrows X) (snd p) (fst p)))
                         (filter (\<lambda>p. fst p \<in> set obj_cols) (cols X)))\<rparr>"

text \<open>Lines 46 to 71: the target, the feature frame and the feature list.\<close>

definition prepare :: "frame \<Rightarrow> error + (frame \<times> column \<times> string list)" where
  "prepare df =
     (if \<not> has_col df ''Loan_Status'' then Inl ValueError
      else
        ebind (getitem df ''Loan_Status'') (\<lambda>ls.
        ebind (target_of ls) (\<lambda>y.
        let X = drop_ignore df [''Loan_ID'', ''Loan_Status''];
            obj_cols = map fst (filter (\<lambda>p. is_object (snd p)) (cols X));
            X = (if obj_cols \<noteq> [] then get_dummies_frame X obj_cols else X);
            non_numeric = map fst (filter (\<lambda>p. is_object (snd p)) (cols X))
        in if non_numeric \<noteq> [] then Inl RuntimeError
           else Inr (X, y, columns X))))"

text \<open>
  \<open>os.path.dirname(p)\<close>: what precedes the last slash, without its trailing slashes unless
  it is the root; empty when \<open>p\<close> has no slash.
\<close>

definition dirname :: "string \<Rightarrow> string" where
  "dirname p =
     (let head = rev (dropWhile (\<lambda>c. c \<noteq> CHR ''/'') (rev p))
      in if list_all (\<lambda>c. c = CHR ''/'') head then head
         else rev (dropWhile (\<lambda>c. c = CHR ''/'') (rev head)))"

text \<open>The directory \<open>d\<close> and the directories above it, up to the root or the current directory.\<close>

fun ancestors :: "nat \<Rightarrow> string \<Rightarrow> string list" where
  "ancestors 0 d = []"
| "ancestors (Suc k) d =
     (if d = [] \<or> list_all (\<lambda>c. c = CHR ''/'') d then [] else d # ancestors k (dirname d))"

text \<open>
  \<open>os.makedirs(d, exist_ok=True)\<close>: raises on the empty name and when a file stands at
  \<open>d\<close> or above it; otherwise \<open>d\<close> and the missing directories above it exist afterwards.
\<close>

definition makedirs :: "string \<Rightarrow> 'm filesystem \<Rightarrow> (error + unit) \<times> 'm filesystem" where
  "makedirs d fs =
     (let ds = ancestors (length d) d
      in if d = [] then (Inl FileNotFoundError, fs)
         else if files fs d \<noteq> None then (Inl FileExistsError, fs)
         else if list_ex (\<lambda>a. files fs a \<noteq> None) ds then (Inl NotADirectoryError, fs)
         else (Inr (), fs\<lparr>dirs := filter (\<lambda>a. a \<notin> set (dirs fs)) ds @ dirs fs\<rparr>))"

text \<open>
  \<open>joblib.dump(value, p)\<close> opens \<open>p\<close> for writing: \<open>p\<close> must not name a directory, and the
  directory of \<open>p\<close> must exist (the current directory, for a path without a slash, does).
\<close>

definition dump :: "'m stored \<Rightarrow> string \<Rightarrow> 'm filesystem \<Rightarrow> (error + unit) \<times> 'm filesystem" where
  "dump v p fs =
     (if p = [] then (Inl FileNotFoundError, fs)
      else if is_dir fs p \<or> last p = CHR ''/'' then (Inl IsADirectoryError, fs)
      else if files fs (dirname p) \<noteq> None then (Inl NotADirectoryError, fs)
      else if \<not> (dirname p = [] \<or> is_dir fs (dirname p)) then (Inl FileNotFoundError, fs)
      else (Inr (), fs\<lparr>files := (files fs)(p \<mapsto> v)\<rparr>))"

text \<open>
  Lines 39 to 112. The existence check comes first; then the file is read, cleaned, the
  target and the features are prepared and the model is fitted, none of which touches the
  file system. Lines 110 to 112 then run one after the other: the directory of the model
  path is created, the model is written, the feature list is written. Each can raise, and
  what the earlier ones wrote stays written.
\<close>

definition train_and_save ::
  "reader \<Rightarrow> (frame \<Rightarrow> column \<Rightarrow> error + 'm \<times> rat) \<Rightarrow> string \<Rightarrow> string \<Rightarrow> string \<Rightarrow> 'm filesystem
     \<Rightarrow> (error + 'm \<times> string list \<times> rat) \<times> 'm filesystem" where
  "train_and_save rd fit raw_csv_path out_model_path out_features_path fs =
     (if \<not> path_exists fs raw_csv_path then (Inl FileNotFoundError, fs)
      else
        case ebind (read_csv fs raw_csv_path) (\<lambda>df_raw.
             ebind (clean_raw_df rd df_raw) (\<lambda>df.
             ebind (prepare df) (\<lambda>(X, y, feature_cols).
             ebind (fit X y) (\<lambda>(clf, auc).
             Inr (clf, feature_cols, auc)))))
        of
          Inl e \<Rightarrow> (Inl e, fs)
        | Inr (clf, feature_cols, auc) \<Rightarrow>
            (case makedirs (dirname out_model_path) fs of
               (Inl e, fs1) \<Rightarrow> (Inl e, fs1)
             | (Inr _, fs1) \<Rightarrow>
            (case dump (Pickled_model clf) out_model_path fs1 of
               (Inl e, fs2) \<Rightarrow> (Inl e, fs2)
             | (Inr _, fs2) \<Rightarrow>
            (case dump (Pickled_features feature_cols) out_features_path fs2 of
               (Inl e, fs3) \<Rightarrow> (Inl e, fs3)
             | (Inr _, fs3) \<Rightarrow> (Inr (clf, feature_cols, auc), fs3)))))"

section \<open>Statement vocabulary and example inputs\<close>

text \<open>The column named \<open>c\<close> of the transformer's output.\<close>

definition cleaned_column :: "reader \<Rightarrow> frame \<Rightarrow> string \<Rightarrow> error + column" where
  "cleaned_column rd df c = ebind (clean_raw_df rd df) (\<lambda>out. getitem out c)"

definition all_numeric :: "frame \<Rightarrow> bool" where
  "all_numeric df = list_all (\<lambda>p. list_all is_number (snd p)) (cols df)"

definition is_bit :: "cell \<Rightarrow> bool" where
  "is_bit c = (c = Num 0 \<or> c = Num 1)"


text \<open>
  A reader of plain decimal literals (an optional sign, digits, an optional fraction),
  for the examples: on the strings that occur in them, such as \<open>3\<close>, \<open>1\<close> and \<open>abc\<close>, it
  answers as the library does.
\<close>

definition digit_of :: "char \<Rightarrow> nat option" where
  "digit_of c = (let n = of_char c :: nat in if 48 \<le> n \<and> n \<le> 57 then Some (n - 48) else None)"

fun digits_value :: "nat \<Rightarrow> string \<Rightarrow> nat option" where
  "digits_value acc [] = Some acc"
| "digits_value acc (c # cs) =
     (case digit_of c of None \<Rightarrow> None | Some d \<Rightarrow> digits_value (10 * acc + d) cs)"

definition parse_unsigned :: "string \<Rightarrow> rat option" where
  "parse_unsigned s =
     (let ip = takeWhile (\<lambda>c. c \<noteq> CHR ''.'') s;
          fp = drop 1 (dropWhile (\<lambda>c. c \<noteq> CHR ''.'') s)
      in if ip = [] \<and> fp = [] then None
         else case (digits_value 0 ip, digits_value 0 fp) of
                (Some i, Some f) \<Rightarrow> Some (of_nat i + of_nat f / 10 ^ length fp)
              | _ \<Rightarrow> None)"

definition parse_number :: "string \<Rightarrow> rat option" where
  "parse_number s =
     (case s of
        c # r \<Rightarrow> (if c = CHR ''-'' then map_option uminus (parse_unsigned r)
                  else if c = CHR ''+'' then parse_unsigned r
                  else parse_unsigned s)
      | [] \<Rightarrow> None)"

definition decimal_reader :: reader where
  "decimal_reader s = (case parse_number s of Some r \<Rightarrow> Number r | None \<Rightarrow> Unreadable)"

text \<open>The end-to-end example record of the specification.\<close>

definition example_application :: LoanApplication where
  "example_application =
     \<lparr>Loan_ID = ''LP001002'', Gender = ''Male'', Married = ''Yes'', Dependents = Some ''3+'',
      Education = ''Graduate'', Self_Employed = ''No'', ApplicantIncome = 5000,
      CoapplicantIncome = 0, LoanAmount = Some 128, Loan_Amount_Term = Some 360,
      Credit_History = Some 1, Property_Area = ''Urban''\<rparr>"

definition zero_loan_application :: LoanApplication where
  "zero_loan_application = example_application\<lparr>LoanAmount := Some 0\<rparr>"

definition no_term_application :: LoanApplication where
  "no_term_application = example_application\<lparr>Loan_Amount_Term := None\<rparr>"

definition no_credit_application :: LoanApplication where
  "no_credit_application = example_application\<lparr>Credit_History := None\<rparr>"

definition null_loan_application :: LoanApplication where
  "null_loan_application = example_application\<lparr>LoanAmount := None\<rparr>"

text \<open>Batches that lack columns, hold unreadable values or miss categories.\<close>

definition batch_without_income :: frame where
  "batch_without_income =
     \<lparr>nrows = 2, cols = [(''Education'', [Str ''Graduate'', Str ''Not Graduate''])]\<rparr>"


definition property_batch :: frame where
  "property_batch =
     \<lparr>nrows = 3, cols = [(''Property_Area'', [Str ''Rural'', Str ''Urban'', Null])]\<rparr>"

text \<open>A store that holds the example request at reference 0.\<close>

definition example_store :: store where
  "example_store =
     \<lparr>fresh = 1, objects = (\<lambda>a. if a = 0 then DataFrame_of example_application else \<lparr>nrows = 0, cols = []\<rparr>)\<rparr>"

text \<open>
  File systems: an empty one; one that holds a given training file under \<open>data/raw\<close>; a
  training file without the label column; one without the label column in which
  Loan_Amount_Term is null in every row. And a learner that always succeeds.
\<close>

definition empty_filesystem :: "nat filesystem" where
  "empty_filesystem = \<lparr>dirs = [], files = (\<lambda>p. None)\<rparr>"

definition training_filesystem :: "frame \<Rightarrow> nat filesystem" where
  "training_filesystem df =
     \<lparr>dirs = [''data'', ''data/raw''],
      files = (\<lambda>p. if p = ''data/raw/loan_train.csv'' then Some (Csv df) else None)\<rparr>"

definition unlabelled_filesystem :: "nat filesystem" where
  "unlabelled_filesystem = training_filesystem batch_without_income"

definition batch_without_term :: frame where
  "batch_without_term =
     \<lparr>nrows = 2, cols = [(''Education'', [Str ''Graduate'', Str ''Not Graduate'']),
                         (''Loan_Amount_Term'', [Null, Null])]\<rparr>"

definition unlabelled_null_filesystem :: "nat filesystem" where
  "unlabelled_null_filesystem = training_filesystem batch_without_term"

definition constant_fit :: "frame \<Rightarrow> column \<Rightarrow> error + nat \<times> rat" where
  "constant_fit X y = Inr (0, 1)"

text \<open>
  A training file of two labelled records whose columns come in another order than the
  fields of a request (Married before Gender), and the feature list that training on it
  persists.
\<close>

definition reordered_training_frame :: frame where
  "reordered_training_frame =
     \<lparr>nrows = 2,
      cols = [(''Loan_ID'', [Str ''LP001002'', Str ''LP001003'']),
              (''Married'', [Str ''Yes'', Str ''No'']),
              (''Gender'', [Str ''Male'', Str ''Female'']),
              (''Dependents'', [Str ''3+'', Str ''1'']),
              (''Education'', [Str ''Graduate'', Str ''Not Graduate'']),
              (''Self_Employed'', [Str ''No'', Str ''Yes'']),
              (''ApplicantIncome'', [Num 5849, Num 4583]),
              (''CoapplicantIncome'', [Num 0, Num 1508]),
              (''LoanAmount'', [Num 120, Num 128]),
              (''Loan_Amount_Term'', [Num 360, Num 360]),
              (''Credit_History'', [Num 1, Num 1]),
              (''Property_Area'', [Str ''Urban'', Str ''Rural'']),
              (''Loan_Status'', [Str ''Y'', Str ''N''])]\<rparr>"

definition reordered_filesystem :: "nat filesystem" where
  "reordered_filesystem = training_filesystem reordered_training_frame"

definition example_feature_cols :: "string list" where
  "example_feature_cols =
     [''Married'', ''Gender'', ''Dependents'', ''Education'', ''Self_Employed'',
      ''ApplicantIncome'', ''CoapplicantIncome'', ''LoanAmount'', ''Loan_Amount_Term'',
      ''Credit_History'', ''TotalIncome'', ''Income_to_Loan_Ratio'',
      ''Applicant_to_Coapp_Ratio'', ''Property_Rural'', ''Property_Semiurban'',
      ''Property_Urban'']"

text \<open>
  A model that answers class 0 with positive-class probability one half, as a linear
  classifier does on its decision boundary (its \<open>predict\<close> asks for a positive score).
\<close>

definition boundary_model :: classifier where
  "boundary_model = \<lparr>predict = (\<lambda>X. Inr [0]), predict_proba = (\<lambda>X. Inr [[1 / 2, 1 / 2]])\<rparr>"

text \<open>
  A probe in place of the model: its class is 1 when the frame it is handed has exactly
  the columns \<open>fc\<close>, in that order, and 0 otherwise.
\<close>

definition alignment_probe :: "string list \<Rightarrow> classifier" where
  "alignment_probe fc =
     \<lparr>predict = (\<lambda>X. Inr [if columns X = fc then 1 else 0]),
      predict_proba = (\<lambda>X. Inr [[1 / 2, 1 / 2]])\<rparr>"

section \<open>Assertions on steps\<close>

text \<open>A step preserves an assertion on frames; a step leaves a column as it is.\<close>

definition preserves :: "(frame \<Rightarrow> bool) \<Rightarrow> (frame \<Rightarrow> error + frame) \<Rightarrow> bool" where
  "preserves P step = (\<forall>df df'. P df \<longrightarrow> step df = Inr df' \<longrightarrow> P df')"

definition keeps :: "string \<Rightarrow> (frame \<Rightarrow> error + frame) \<Rightarrow> bool" where
  "keeps c step = (\<forall>df df'. step df = Inr df' \<longrightarrow> map_of (cols df') c = map_of (cols df) c)"

text \<open>
  A step on references that, run on a reference at or above \<open>n\<close>, writes nothing below \<open>n\<close>
  and returns a reference at or above \<open>n\<close>; and a step on references that computes what a
  step on frames computes.
\<close>

definition writes_above :: "nat \<Rightarrow> (nat \<Rightarrow> store \<Rightarrow> (error + nat) \<times> store) \<Rightarrow> bool" where
  "writes_above n st =
     (\<forall>r s res s'. st r s = (res, s') \<longrightarrow> n \<le> r \<longrightarrow> r < fresh s \<longrightarrow>
        fresh s \<le> fresh s' \<and> (\<forall>a<n. objects s' a = objects s a) \<and>
        (\<forall>r'. res = Inr r' \<longrightarrow> n \<le> r' \<and> r' < fresh s'))"

definition implements :: "(nat \<Rightarrow> store \<Rightarrow> (error + nat) \<times> store) \<Rightarrow> (frame \<Rightarrow> error + frame) \<Rightarrow> bool" where
  "implements st step =
     (\<forall>r s res s'. st r s = (res, s') \<longrightarrow> map_sum id (objects s') res = step (objects s r))"

text \<open>A result that is not the \<open>KeyError\<close> of a missing column label.\<close>

definition label_free :: "error + 'a \<Rightarrow> bool" where
  "label_free r = (\<forall>c. r \<noteq> Inl (KeyError (Label c)))"

section \<open>Basic facts\<close>

subsection \<open>Sequencing\<close>

lemma ebind_Inr_iff: "ebind m f = Inr y \<longleftrightarrow> (\<exists>x. m = Inr x \<and> f x = Inr y)"
  by (cases m) auto

lemma ebind_Inl_iff: "ebind m f = Inl e \<longleftrightarrow> m = Inl e \<or> (\<exists>x. m = Inr x \<and> f x = Inl e)"
  by (cases m) auto




lemma mapE_Inl: "mapE f xs = Inl e \<Longrightarrow> \<exists>x\<in>set xs. f x = Inl e"
  by (induction xs) (auto simp: ebind_Inl_iff)

lemma run_steps_append: "run_steps (xs @ ys) df = ebind (run_steps xs df) (run_steps ys)"
proof (induction xs arbitrary: df)
  case Nil
  show ?case by simp
next
  case (Cons s xs)
  show ?case by (cases "s df") (simp_all add: Cons.IH)
qed

lemma run_steps_append_Inr:
  "run_steps (xs @ ys) df = Inr out \<longleftrightarrow> (\<exists>mid. run_steps xs df = Inr mid \<and> run_steps ys mid = Inr out)"
  by (simp add: run_steps_append ebind_Inr_iff)

lemma run_steps_single: "run_steps [s] df = s df"
  by (cases "s df") simp_all

subsection \<open>Reading and writing columns\<close>

lemma getitem_Inr_iff: "getitem df c = Inr col \<longleftrightarrow> map_of (cols df) c = Some col"
  by (auto simp: getitem_def split: option.splits)

lemma has_col_iff: "has_col df c \<longleftrightarrow> map_of (cols df) c \<noteq> None"
  by (simp add: has_col_def columns_def map_of_eq_None_iff)

lemma lookup_setitem:
  "map_of (cols (setitem df c v)) c' = (if c' = c then Some v else map_of (cols df) c')"
  by (simp add: setitem_def update_conv')

lemma nrows_setitem: "nrows (setitem df c v) = nrows df"
  by (simp add: setitem_def)

lemma columns_setitem:
  "columns (setitem df c v) = (if has_col df c then columns df else columns df @ [c])"
  by (simp add: setitem_def columns_def has_col_def update_keys)

lemma has_col_setitem: "has_col (setitem df c v) c' \<longleftrightarrow> c' = c \<or> has_col df c'"
  by (simp add: has_col_iff lookup_setitem)

subsection \<open>Guarded assignments\<close>

lemma assign_column_Inr:
  "assign_column c f df = Inr df' \<longleftrightarrow>
     (\<exists>col col'. map_of (cols df) c = Some col \<and> f col = Inr col' \<and> df' = setitem df c col')"
  unfolding assign_column_def ebind_Inr_iff getitem_Inr_iff by auto

lemma update_column_present:
  "has_col df c \<Longrightarrow> update_column c f df = Inr df' \<longleftrightarrow>
     (\<exists>col col'. map_of (cols df) c = Some col \<and> f col = Inr col' \<and> df' = setitem df c col')"
  by (simp add: update_column_def assign_column_Inr)

lemma update_column_missing:
  "\<not> has_col df c \<Longrightarrow> update_column c f df = Inr df' \<longleftrightarrow> df' = df"
  by (auto simp: update_column_def)

lemma update_column_columns: "update_column c f df = Inr df' \<Longrightarrow> columns df' = columns df"
  by (cases "has_col df c") (auto simp: update_column_present update_column_missing columns_setitem)

lemma update_column_nrows: "update_column c f df = Inr df' \<Longrightarrow> nrows df' = nrows df"
  by (cases "has_col df c") (auto simp: update_column_present update_column_missing nrows_setitem)


lemma keeps_update_column: "c \<noteq> c' \<Longrightarrow> keeps c (update_column c' f)"
  unfolding keeps_def
proof (intro allI impI)
  fix df df' assume ne: "c \<noteq> c'" and r: "update_column c' f df = Inr df'"
  show "map_of (cols df') c = map_of (cols df) c"
    using r ne by (cases "has_col df c'") (auto simp: update_column_present update_column_missing lookup_setitem)
qed

lemma keeps_run_steps: "list_all (keeps c) ss \<Longrightarrow> keeps c (run_steps ss)"
proof (induction ss)
  case Nil
  show ?case by (simp add: keeps_def)
next
  case (Cons s ss)
  then have a: "keeps c s" and b: "keeps c (run_steps ss)" by simp_all
  show ?case unfolding keeps_def
  proof (intro allI impI)
    fix df df' assume "run_steps (s # ss) df = Inr df'"
    then obtain mid where m: "s df = Inr mid" "run_steps ss mid = Inr df'"
      by (auto simp: ebind_Inr_iff)
    from a m(1) have "map_of (cols mid) c = map_of (cols df) c" by (simp add: keeps_def)
    moreover from b m(2) have "map_of (cols df') c = map_of (cols mid) c" by (simp add: keeps_def)
    ultimately show "map_of (cols df') c = map_of (cols df) c" by simp
  qed
qed

lemma preserves_run_steps: "list_all (preserves P) ss \<Longrightarrow> preserves P (run_steps ss)"
proof (induction ss)
  case Nil
  show ?case by (simp add: preserves_def)
next
  case (Cons s ss)
  then have a: "preserves P s" and b: "preserves P (run_steps ss)" by simp_all
  show ?case unfolding preserves_def
  proof (intro allI impI)
    fix df df' assume p: "P df" and "run_steps (s # ss) df = Inr df'"
    then obtain mid where m: "s df = Inr mid" "run_steps ss mid = Inr df'"
      by (auto simp: ebind_Inr_iff)
    from a p m(1) have "P mid" unfolding preserves_def by blast
    with b m(2) show "P df'" unfolding preserves_def by blast
  qed
qed

subsection \<open>Sorting keeps the elements\<close>

lemma set_insort_cell: "set (insort_cell x xs) = insert x (set xs)"
  by (induction xs) auto

lemma set_sort_cells: "set (sort_cells xs) = set xs"
  by (induction xs) (simp_all add: sort_cells_def set_insort_cell)

subsection \<open>Indicator columns\<close>

lemma dot_in_label_Num: "CHR ''.'' \<in> set (level_label (Num r))"
  by simp

lemma level_label_eq_plain:
  assumes "CHR ''.'' \<notin> set w" "w \<noteq> ''inf''" "w \<noteq> ''-inf''" "x \<noteq> Null"
  shows "level_label x = w \<longleftrightarrow> x = Str w"
proof (cases x)
  case Null
  with assms show ?thesis by simp
next
  case (Num r)
  have "CHR ''.'' \<in> set (level_label (Num r))" by (rule dot_in_label_Num)
  with assms(1) have "level_label (Num r) \<noteq> w" by metis
  with Num show ?thesis by simp
next
  case (Infty s)
  with assms show ?thesis by auto
next
  case (Str s)
  then show ?thesis by simp
qed

lemma map_of_labelled:
  assumes "\<forall>x\<in>set levels. level_label x = w \<longleftrightarrow> x = Str w"
  shows "map_of (map (\<lambda>v. (p @ level_label v, g v)) levels) (p @ w) =
           (if Str w \<in> set levels then Some (g (Str w)) else None)"
  using assms by (induction levels) auto

lemma lookup_get_dummies:
  assumes "CHR ''.'' \<notin> set w" "w \<noteq> ''inf''" "w \<noteq> ''-inf''"
  shows "map_of (cols (get_dummies n pa p)) (p @ ''_'' @ w) =
           (if Str w \<in> set pa then Some (indicator (Str w) pa) else None)"
proof -
  let ?levels = "sort_cells (remdups (dropna pa))"
  have s: "set ?levels = {c \<in> set pa. c \<noteq> Null}"
    by (auto simp: set_sort_cells dropna_def isnull_def)
  have "\<forall>x\<in>set ?levels. level_label x = w \<longleftrightarrow> x = Str w"
    using level_label_eq_plain[OF assms] s by blast
  then have "map_of (map (\<lambda>v. ((p @ ''_'') @ level_label v, indicator v pa)) ?levels) ((p @ ''_'') @ w)
      = (if Str w \<in> set ?levels then Some (indicator (Str w) pa) else None)"
    by (rule map_of_labelled)
  then show ?thesis by (simp add: get_dummies_def s)
qed

lemma indicator_absent: "v \<notin> set pa \<Longrightarrow> indicator v pa = replicate (length pa) (Num 0)"
  by (induction pa) (auto simp: indicator_def)

lemma astype_int_indicator: "astype_int (indicator v pa) = Inr (indicator v pa)"
  by (induction pa) (auto simp: astype_int_def indicator_def trunc_def)

lemma length_indicator: "length (indicator v pa) = length pa"
  by (simp add: indicator_def)

lemma indicator_nth: "i < length pa \<Longrightarrow> indicator v pa ! i = Num (if pa ! i = v then 1 else 0)"
  by (simp add: indicator_def)

lemma indicator_is_bit: "i < length pa \<Longrightarrow> is_bit (indicator v pa ! i)"
  by (simp add: indicator_nth is_bit_def)

lemma indicator_one: "i < length pa \<Longrightarrow> (indicator v pa ! i = Num 1) \<longleftrightarrow> pa ! i = v"
  by (simp add: indicator_nth)

lemma indicator_at_most_one:
  assumes "i < length pa" "a \<noteq> b" "a \<noteq> c" "b \<noteq> c"
  shows "length (filter (\<lambda>x. x = Num 1) [indicator a pa ! i, indicator b pa ! i, indicator c pa ! i]) \<le> 1"
  using assms by (auto simp: indicator_nth)

subsection \<open>The one-hot step\<close>

lemma map_of_filter_key:
  "map_of (filter (\<lambda>p. fst p \<notin> set names) xs) c = (if c \<in> set names then None else map_of xs c)"
  by (induction xs) auto

lemma lookup_drop_ignore:
  "map_of (cols (drop_ignore df names)) c = (if c \<in> set names then None else map_of (cols df) c)"
  by (simp add: drop_ignore_def map_of_filter_key)

lemma columns_drop_ignore: "columns (drop_ignore df names) = filter (\<lambda>c. c \<notin> set names) (columns df)"
  by (simp add: drop_ignore_def columns_def filter_map comp_def)

lemma nrows_drop_ignore: "nrows (drop_ignore df names) = nrows df"
  by (simp add: drop_ignore_def)

lemma drop_columns_single:
  "drop_columns df [c] = (if has_col df c then Inr (drop_ignore df [c]) else Inl (KeyError (Label c)))"
  by (simp add: drop_columns_def)

text \<open>The indicator column of a category, all zeros when the category does not occur.\<close>

lemma dummies_completed:
  fixes n pa
  defines "D \<equiv> fold (\<lambda>col d. if \<not> has_col d col then setitem_scalar d col (Num 0) else d)
                property_columns (get_dummies n pa ''Property'')"
  assumes len: "length pa = n"
  shows "map_of (cols D) ''Property_Rural'' = Some (indicator (Str ''Rural'') pa)"
    and "map_of (cols D) ''Property_Semiurban'' = Some (indicator (Str ''Semiurban'') pa)"
    and "map_of (cols D) ''Property_Urban'' = Some (indicator (Str ''Urban'') pa)"
proof -
  let ?G = "get_dummies n pa ''Property''"
  have n: "nrows ?G = n" by (simp add: get_dummies_def)
  have r: "map_of (cols ?G) ''Property_Rural'' =
      (if Str ''Rural'' \<in> set pa then Some (indicator (Str ''Rural'') pa) else None)"
    using lookup_get_dummies[of "''Rural''" n pa "''Property''"] by simp
  have s: "map_of (cols ?G) ''Property_Semiurban'' =
      (if Str ''Semiurban'' \<in> set pa then Some (indicator (Str ''Semiurban'') pa) else None)"
    using lookup_get_dummies[of "''Semiurban''" n pa "''Property''"] by simp
  have u: "map_of (cols ?G) ''Property_Urban'' =
      (if Str ''Urban'' \<in> set pa then Some (indicator (Str ''Urban'') pa) else None)"
    using lookup_get_dummies[of "''Urban''" n pa "''Property''"] by simp
  show "map_of (cols D) ''Property_Rural'' = Some (indicator (Str ''Rural'') pa)"
    unfolding D_def property_columns_def
    by (simp add: has_col_iff lookup_setitem setitem_scalar_def nrows_setitem n r s u indicator_absent len)
  show "map_of (cols D) ''Property_Semiurban'' = Some (indicator (Str ''Semiurban'') pa)"
    unfolding D_def property_columns_def
    by (simp add: has_col_iff lookup_setitem setitem_scalar_def nrows_setitem n r s u indicator_absent len)
  show "map_of (cols D) ''Property_Urban'' = Some (indicator (Str ''Urban'') pa)"
    unfolding D_def property_columns_def
    by (simp add: has_col_iff lookup_setitem setitem_scalar_def nrows_setitem n r s u indicator_absent len)
qed

lemma select_three:
  assumes "map_of (cols D) a = Some x" "map_of (cols D) b = Some y" "map_of (cols D) c = Some z"
  shows "select_columns D [a, b, c] = Inr (D\<lparr>cols := [(a, x), (b, y), (c, z)]\<rparr>)"
  using assms by (simp add: select_columns_def getitem_def)

lemma one_hot_absent: "\<not> has_col df ''Property_Area'' \<Longrightarrow> one_hot_Property_Area df = Inr df"
  by (simp add: one_hot_Property_Area_def)

lemma select_columns_keys:
  "select_columns D names = Inr S \<Longrightarrow> columns S = names \<and> nrows S = nrows D"
proof -
  have k: "mapE (\<lambda>n. ebind (getitem D n) (\<lambda>col. Inr (n, col))) names = Inr cs \<Longrightarrow> map fst cs = names"
    for cs
    by (induction names arbitrary: cs) (auto simp: ebind_Inr_iff)
  assume "select_columns D names = Inr S"
  then show ?thesis
    by (auto simp: select_columns_def ebind_Inr_iff columns_def dest: k)
qed

lemma lookup_concat_columns:
  "map_of (cols (concat_columns a b)) c =
     (case map_of (cols a) c of None \<Rightarrow> map_of (cols b) c | Some v \<Rightarrow> Some v)"
  by (simp add: concat_columns_def map_add_def)

lemma columns_concat_columns: "columns (concat_columns a b) = columns a @ columns b"
  by (simp add: concat_columns_def columns_def)

lemma nrows_concat_columns: "nrows (concat_columns a b) = nrows a"
  by (simp add: concat_columns_def)

lemma one_hot_shape:
  assumes "one_hot_Property_Area df = Inr out" "has_col df ''Property_Area''"
  shows "\<exists>sel r s u. columns sel = property_columns \<and>
           out = setitem (setitem (setitem
                   (concat_columns (drop_ignore df [''Property_Area'']) sel)
                   ''Property_Rural'' r) ''Property_Semiurban'' s) ''Property_Urban'' u"
  using assms
  by (auto simp: one_hot_Property_Area_def ebind_Inr_iff drop_columns_single assign_column_Inr
        getitem_Inr_iff Let_def dest!: select_columns_keys)

lemma not_in_columns_lookup: "c \<notin> set (columns df) \<Longrightarrow> map_of (cols df) c = None"
  by (simp add: columns_def map_of_eq_None_iff)

lemma keeps_one_hot:
  assumes "c \<noteq> ''Property_Area''" "c \<notin> set property_columns"
  shows "keeps c one_hot_Property_Area"
  unfolding keeps_def
proof (intro allI impI)
  fix df out assume r: "one_hot_Property_Area df = Inr out"
  show "map_of (cols out) c = map_of (cols df) c"
  proof (cases "has_col df ''Property_Area''")
    case False
    with r show ?thesis by (simp add: one_hot_absent)
  next
    case True
    from one_hot_shape[OF r True] obtain sel x y z where
      sel: "columns sel = property_columns" and
      out: "out = setitem (setitem (setitem
                   (concat_columns (drop_ignore df [''Property_Area'']) sel)
                   ''Property_Rural'' x) ''Property_Semiurban'' y) ''Property_Urban'' z"
      by blast
    from assms(2) sel have "map_of (cols sel) c = None"
      by (simp add: not_in_columns_lookup)
    with assms show ?thesis
      by (simp add: out lookup_setitem lookup_concat_columns lookup_drop_ignore property_columns_def
            split: option.splits)
  qed
qed

lemma one_hot_nrows: "one_hot_Property_Area df = Inr out \<Longrightarrow> nrows out = nrows df"
proof (cases "has_col df ''Property_Area''")
  case False
  assume "one_hot_Property_Area df = Inr out"
  with False show ?thesis by (simp add: one_hot_absent)
next
  case True
  assume "one_hot_Property_Area df = Inr out"
  from one_hot_shape[OF this True] show ?thesis
    by (auto simp: nrows_setitem nrows_concat_columns nrows_drop_ignore)
qed

text \<open>With the indicator names unused in the input, the result is known exactly.\<close>

lemma one_hot_present:
  assumes r: "one_hot_Property_Area df = Inr out"
    and pa: "map_of (cols df) ''Property_Area'' = Some pa" and len: "length pa = nrows df"
    and fresh: "\<forall>c\<in>set property_columns. \<not> has_col df c"
  shows "map_of (cols out) ''Property_Rural'' = Some (indicator (Str ''Rural'') pa)"
    and "map_of (cols out) ''Property_Semiurban'' = Some (indicator (Str ''Semiurban'') pa)"
    and "map_of (cols out) ''Property_Urban'' = Some (indicator (Str ''Urban'') pa)"
    and "map_of (cols out) ''Property_Area'' = None"
    and "columns out = filter (\<lambda>c. c \<noteq> ''Property_Area'') (columns df) @ property_columns"
proof -
  define D where "D = fold (\<lambda>col d. if \<not> has_col d col then setitem_scalar d col (Num 0) else d)
                property_columns (get_dummies (nrows df) pa ''Property'')"
  define sel where "sel = D\<lparr>cols := [(''Property_Rural'', indicator (Str ''Rural'') pa),
                    (''Property_Semiurban'', indicator (Str ''Semiurban'') pa),
                    (''Property_Urban'', indicator (Str ''Urban'') pa)]\<rparr>"
  let ?cat = "concat_columns (drop_ignore df [''Property_Area'']) sel"
  have has: "has_col df ''Property_Area''" using pa by (simp add: has_col_iff)
  have "select_columns D [''Property_Rural'', ''Property_Semiurban'', ''Property_Urban''] = Inr sel"
    unfolding sel_def D_def by (rule select_three) (rule dummies_completed[OF len])+
  then have sel: "select_columns D property_columns = Inr sel"
    by (simp only: property_columns_def)
  have csel: "cols sel = [(''Property_Rural'', indicator (Str ''Rural'') pa),
                    (''Property_Semiurban'', indicator (Str ''Semiurban'') pa),
                    (''Property_Urban'', indicator (Str ''Urban'') pa)]"
    by (simp add: sel_def)
  have fr: "map_of (cols df) ''Property_Rural'' = None"
       "map_of (cols df) ''Property_Semiurban'' = None"
       "map_of (cols df) ''Property_Urban'' = None"
    using fresh by (simp_all add: has_col_iff property_columns_def)
  have frc: "\<not> has_col (drop_ignore df [''Property_Area'']) ''Property_Rural''"
       "\<not> has_col (drop_ignore df [''Property_Area'']) ''Property_Semiurban''"
       "\<not> has_col (drop_ignore df [''Property_Area'']) ''Property_Urban''"
    using fr by (simp_all add: has_col_iff lookup_drop_ignore)
  have cat: "map_of (cols ?cat) ''Property_Rural'' = Some (indicator (Str ''Rural'') pa)"
       "map_of (cols ?cat) ''Property_Semiurban'' = Some (indicator (Str ''Semiurban'') pa)"
       "map_of (cols ?cat) ''Property_Urban'' = Some (indicator (Str ''Urban'') pa)"
    using fr by (simp_all add: lookup_concat_columns lookup_drop_ignore csel)
  have out: "out = setitem (setitem (setitem ?cat
        ''Property_Rural'' (indicator (Str ''Rural'') pa))
        ''Property_Semiurban'' (indicator (Str ''Semiurban'') pa))
        ''Property_Urban'' (indicator (Str ''Urban'') pa)"
    using r has pa sel cat
    by (simp add: one_hot_Property_Area_def getitem_def drop_columns_single Let_def
          assign_column_def lookup_setitem astype_int_indicator D_def[symmetric])
  show "map_of (cols out) ''Property_Rural'' = Some (indicator (Str ''Rural'') pa)"
    by (simp add: out lookup_setitem)
  show "map_of (cols out) ''Property_Semiurban'' = Some (indicator (Str ''Semiurban'') pa)"
    by (simp add: out lookup_setitem)
  show "map_of (cols out) ''Property_Urban'' = Some (indicator (Str ''Urban'') pa)"
    by (simp add: out lookup_setitem)
  show "map_of (cols out) ''Property_Area'' = None"
    by (simp add: out lookup_setitem lookup_concat_columns lookup_drop_ignore csel)
  have "has_col ?cat ''Property_Rural''" "has_col ?cat ''Property_Semiurban''"
       "has_col ?cat ''Property_Urban''"
    using cat by (simp_all add: has_col_iff)
  then show "columns out = filter (\<lambda>c. c \<noteq> ''Property_Area'') (columns df) @ property_columns"
    by (simp add: out columns_setitem has_col_setitem columns_concat_columns columns_drop_ignore
          columns_def[of sel] csel property_columns_def)
qed

subsection \<open>The engineered features\<close>

lemma total_income_Inr:
  assumes "total_income df = Inr df'"
  shows "\<exists>t. df' = setitem df ''TotalIncome'' t \<and>
           (\<not> (has_col df ''ApplicantIncome'' \<and> has_col df ''CoapplicantIncome'')
              \<longrightarrow> t = replicate (nrows df) Null)"
  using assms
  by (auto simp: total_income_def ebind_Inr_iff setitem_scalar_def split: if_splits)

lemma col_op_all_null:
  assumes "col_op cdiv ti la = Inr r" "list_all isnull ti"
  shows "list_all isnull r"
proof -
  have "mapE (\<lambda>(x, y). cdiv x y) ps = Inr r \<Longrightarrow> list_all (\<lambda>p. isnull (fst p)) ps \<Longrightarrow> list_all isnull r"
    for ps
    by (induction ps arbitrary: r) (auto simp: ebind_Inr_iff isnull_def)
  moreover have "list_all (\<lambda>p. isnull (fst p)) (zip ti la)"
    using assms(2) by (auto simp: list_all_iff dest: set_zip_leftD)
  ultimately show ?thesis using assms(1) by (simp add: col_op_def)
qed

lemma income_to_loan_ratio_Inr:
  assumes "income_to_loan_ratio df = Inr df'"
  shows "\<exists>la r. df' = setitem (if has_col df ''LoanAmount'' then setitem df ''LoanAmount'' la else df)
                         ''Income_to_Loan_Ratio'' r \<and>
           (\<not> has_col df ''LoanAmount'' \<longrightarrow> r = replicate (nrows df) Null) \<and>
           (\<forall>ti. map_of (cols df) ''TotalIncome'' = Some ti \<longrightarrow> list_all isnull ti \<longrightarrow> list_all isnull r)"
proof (cases "has_col df ''LoanAmount''")
  case False
  with assms show ?thesis
    by (auto simp: income_to_loan_ratio_def setitem_scalar_def list_all_iff isnull_def)
next
  case True
  with assms obtain la m ti la1 r where
    r: "col_op cdiv ti la1 = Inr r"
       "map_of (cols (setitem df ''LoanAmount'' (replace_value (Num 0) m la))) ''TotalIncome'' = Some ti"
       "df' = setitem (setitem df ''LoanAmount'' (replace_value (Num 0) m la)) ''Income_to_Loan_Ratio'' r"
    by (auto simp: income_to_loan_ratio_def ebind_Inr_iff getitem_Inr_iff Let_def)
  from r(2) have ti: "map_of (cols df) ''TotalIncome'' = Some ti"
    by (simp add: lookup_setitem)
  have "list_all isnull ti \<Longrightarrow> list_all isnull r"
    using r(1) by (rule col_op_all_null)
  with True r(3) ti show ?thesis
    by (intro exI[of _ "replace_value (Num 0) m la"] exI[of _ r]) simp
qed

lemma applicant_to_coapp_ratio_Inr:
  assumes "applicant_to_coapp_ratio df = Inr df'"
  shows "df' = df \<or> (\<exists>x. df' = setitem df ''Applicant_to_Coapp_Ratio'' x)"
  using assms
  by (auto simp: applicant_to_coapp_ratio_def ebind_Inr_iff split: if_splits)

lemma keeps_total_income: "c \<noteq> ''TotalIncome'' \<Longrightarrow> keeps c total_income"
  unfolding keeps_def by (auto dest!: total_income_Inr simp: lookup_setitem)

lemma keeps_income_to_loan_ratio:
  "c \<noteq> ''LoanAmount'' \<Longrightarrow> c \<noteq> ''Income_to_Loan_Ratio'' \<Longrightarrow> keeps c income_to_loan_ratio"
  unfolding keeps_def by (auto dest!: income_to_loan_ratio_Inr simp: lookup_setitem)

lemma keeps_applicant_to_coapp_ratio:
  "c \<noteq> ''Applicant_to_Coapp_Ratio'' \<Longrightarrow> keeps c applicant_to_coapp_ratio"
  unfolding keeps_def by (auto dest!: applicant_to_coapp_ratio_Inr simp: lookup_setitem)

lemmas keeps_step =
  keeps_update_column keeps_total_income keeps_income_to_loan_ratio
  keeps_applicant_to_coapp_ratio keeps_one_hot

lemmas section_defs =
  imputations_def dependents_cleanup_def engineered_features_def outlier_capping_def
  categorical_mappings_def target_mapping_def

text \<open>The row count never changes.\<close>

lemma nrows_step:
  "update_column c f df = Inr df' \<Longrightarrow> nrows df' = nrows df"
  "total_income df = Inr df' \<Longrightarrow> nrows df' = nrows df"
  "income_to_loan_ratio df = Inr df' \<Longrightarrow> nrows df' = nrows df"
  "applicant_to_coapp_ratio df = Inr df' \<Longrightarrow> nrows df' = nrows df"
  "one_hot_Property_Area df = Inr df' \<Longrightarrow> nrows df' = nrows df"
      apply (rule update_column_nrows, assumption)
     apply (auto dest!: total_income_Inr simp: nrows_setitem)[1]
    apply (auto dest!: income_to_loan_ratio_Inr simp: nrows_setitem)[1]
   apply (auto dest!: applicant_to_coapp_ratio_Inr simp: nrows_setitem)[1]
  apply (rule one_hot_nrows, assumption)
  done

subsection \<open>No step raises for a missing column\<close>

lemma label_free_Inr: "label_free (Inr x)"
  by (simp add: label_free_def)

lemma label_free_Inl: "label_free (Inl e) \<longleftrightarrow> (\<forall>c. e \<noteq> KeyError (Label c))"
  by (simp add: label_free_def)

lemma label_free_ebind:
  "label_free m \<Longrightarrow> (\<And>x. m = Inr x \<Longrightarrow> label_free (f x)) \<Longrightarrow> label_free (ebind m f)"
  by (cases m) (auto simp: label_free_def)

lemma label_free_mapE: "(\<And>x. x \<in> set xs \<Longrightarrow> label_free (f x)) \<Longrightarrow> label_free (mapE f xs)"
  unfolding label_free_def by (auto dest!: mapE_Inl)

lemma label_free_cadd: "label_free (cadd a b)"
  by (cases a; cases b) (simp_all add: label_free_def)

lemma label_free_csub: "label_free (csub a b)"
  by (cases a; cases b) (simp_all add: label_free_def)

lemma label_free_cmul: "label_free (cmul a b)"
  by (cases a; cases b) (simp_all add: label_free_def)

lemma label_free_cdiv: "label_free (cdiv a b)"
  by (cases a; cases b) (simp_all add: label_free_def)

lemma label_free_col_op:
  "(\<And>a b. label_free (f a b)) \<Longrightarrow> label_free (col_op f xs ys)"
  by (auto simp: col_op_def intro!: label_free_mapE)

lemma label_free_item0: "label_free (item0 xs)"
  by (cases xs) (simp_all add: item0_def label_free_def)

lemma label_free_median: "label_free (median col)"
  by (auto simp: median_def Let_def label_free_Inr label_free_Inl
      intro!: label_free_ebind label_free_cadd label_free_cdiv)

lemma label_free_quantile: "label_free (quantile q col)"
  by (auto simp: quantile_def Let_def label_free_Inr label_free_Inl
      intro!: label_free_ebind label_free_cadd label_free_csub label_free_cmul)

lemma label_free_py_int: "label_free (py_int c)"
  by (cases c) (simp_all add: label_free_def)

lemma label_free_int_cast: "label_free (int_cast c)"
  by (cases c) (simp_all add: label_free_def)

lemma label_free_astype_int: "label_free (astype_int col)"
  by (simp add: astype_int_def label_free_mapE label_free_int_cast)

lemma label_free_fill:
  "label_free (fill_median col)" "label_free (fill_const v col)" "label_free (fill_mode col)"
  "label_free (fill_Credit_History col)"
  by (auto simp: fill_median_def fill_const_def fill_mode_def fill_Credit_History_def label_free_Inr
      intro!: label_free_ebind label_free_median label_free_item0)

lemma label_free_clean_Dependents: "label_free (clean_Dependents rd col)"
  by (auto simp: clean_Dependents_def Let_def label_free_Inr
      intro!: label_free_ebind label_free_item0 label_free_astype_int)

lemma label_free_cap:
  "label_free (cap_ApplicantIncome col)" "label_free (cap_LoanAmount col)"
  by (auto simp: cap_ApplicantIncome_def cap_LoanAmount_def Let_def label_free_Inr
      intro!: label_free_ebind label_free_quantile label_free_py_int label_free_csub
        label_free_cmul label_free_cadd)

lemma label_free_encode:
  "label_free (encode_binary d col)" "label_free (map_Loan_Status col)"
  by (simp_all add: encode_binary_def map_Loan_Status_def label_free_astype_int label_free_Inr)

lemmas label_free_column =
  label_free_fill label_free_clean_Dependents label_free_cap label_free_encode
  label_free_astype_int

lemma label_free_getitem: "has_col df c \<Longrightarrow> label_free (getitem df c)"
  by (auto simp: has_col_iff getitem_def label_free_Inr)

lemma label_free_assign_column:
  "has_col df c \<Longrightarrow> (\<And>col. label_free (f col)) \<Longrightarrow> label_free (assign_column c f df)"
  by (auto simp: assign_column_def label_free_Inr intro!: label_free_ebind label_free_getitem)

lemma label_free_update_column:
  "(\<And>col. label_free (f col)) \<Longrightarrow> label_free (update_column c f df)"
  by (simp add: update_column_def label_free_assign_column label_free_Inr)

lemma label_free_total_income: "label_free (total_income df)"
  by (auto simp: total_income_def label_free_Inr
      intro!: label_free_ebind label_free_getitem label_free_col_op label_free_cadd)

lemma label_free_income_to_loan_ratio:
  "has_col df ''TotalIncome'' \<Longrightarrow> label_free (income_to_loan_ratio df)"
  by (auto simp: income_to_loan_ratio_def label_free_Inr Let_def has_col_setitem
      intro!: label_free_ebind label_free_getitem label_free_col_op label_free_cdiv
        label_free_median)

lemma label_free_applicant_to_coapp_ratio: "label_free (applicant_to_coapp_ratio df)"
  by (auto simp: applicant_to_coapp_ratio_def label_free_Inr
      intro!: label_free_ebind label_free_getitem label_free_col_op label_free_cdiv)

lemma dummies_completed_has:
  fixes G
  defines "D \<equiv> fold (\<lambda>col d. if \<not> has_col d col then setitem_scalar d col (Num 0) else d)
                property_columns G"
  shows "has_col D ''Property_Rural''" "has_col D ''Property_Semiurban''" "has_col D ''Property_Urban''"
  unfolding D_def property_columns_def
  by (simp_all add: has_col_setitem setitem_scalar_def)

lemma label_free_select_columns:
  "(\<And>c. c \<in> set names \<Longrightarrow> has_col D c) \<Longrightarrow> label_free (select_columns D names)"
  by (auto simp: select_columns_def label_free_Inr
      intro!: label_free_ebind label_free_mapE label_free_getitem)

lemma label_free_run_steps:
  "(\<And>s d. s \<in> set ss \<Longrightarrow> label_free (s d)) \<Longrightarrow> label_free (run_steps ss df)"
proof (induction ss arbitrary: df)
  case Nil
  show ?case by (simp add: label_free_Inr)
next
  case (Cons s ss)
  have a: "label_free (s df)" by (rule Cons.prems) simp
  have b: "label_free (run_steps ss x)" for x
    by (rule Cons.IH) (rule Cons.prems, simp)
  show ?case using a b by (simp add: label_free_ebind)
qed

lemma label_free_run_steps_append:
  "label_free (run_steps xs df) \<Longrightarrow> (\<And>d. run_steps xs df = Inr d \<Longrightarrow> label_free (run_steps ys d))
     \<Longrightarrow> label_free (run_steps (xs @ ys) df)"
  by (simp add: run_steps_append label_free_ebind)

lemma label_free_run_steps_Cons:
  "label_free (s df) \<Longrightarrow> (\<And>d. s df = Inr d \<Longrightarrow> label_free (run_steps ss d))
     \<Longrightarrow> label_free (run_steps (s # ss) df)"
  by (simp add: label_free_ebind)

lemma label_free_one_hot: "label_free (one_hot_Property_Area df)"
proof (cases "has_col df ''Property_Area''")
  case False
  then show ?thesis by (simp add: one_hot_absent label_free_Inr)
next
  case True
  obtain pa where pa: "getitem df ''Property_Area'' = Inr pa"
    using True by (auto simp: has_col_iff getitem_def)
  define D where "D = fold (\<lambda>col d. if \<not> has_col d col then setitem_scalar d col (Num 0) else d)
                property_columns (get_dummies (nrows df) pa ''Property'')"
  have hasD: "has_col D c" if "c \<in> set property_columns" for c
  proof -
    from that consider "c = ''Property_Rural''" | "c = ''Property_Semiurban''" | "c = ''Property_Urban''"
      by (auto simp: property_columns_def)
    then show ?thesis
      by cases (simp_all only: D_def dummies_completed_has)
  qed
  have sel: "label_free (select_columns D property_columns)"
    by (rule label_free_select_columns) (rule hasD)
  have fin: "label_free (run_steps
          [assign_column ''Property_Rural'' astype_int,
           assign_column ''Property_Semiurban'' astype_int,
           assign_column ''Property_Urban'' astype_int]
          (concat_columns (drop_ignore df [''Property_Area'']) sel))"
    if "select_columns D property_columns = Inr sel" for sel
  proof -
    from select_columns_keys[OF that] have k: "columns sel = property_columns" by simp
    let ?c = "concat_columns (drop_ignore df [''Property_Area'']) sel"
    have h: "has_col ?c ''Property_Rural''" "has_col ?c ''Property_Semiurban''" "has_col ?c ''Property_Urban''"
      using k by (simp_all add: has_col_def columns_concat_columns property_columns_def)
    have a: "label_free (assign_column ''Property_Rural'' astype_int ?c)"
      using h(1) by (rule label_free_assign_column) (rule label_free_astype_int)
    have b: "label_free (assign_column ''Property_Semiurban'' astype_int d)"
      if "assign_column ''Property_Rural'' astype_int ?c = Inr d" for d
    proof -
      from that have "has_col d ''Property_Semiurban''"
        using h(2) by (auto simp: assign_column_Inr has_col_setitem)
      then show ?thesis by (rule label_free_assign_column) (rule label_free_astype_int)
    qed
    have c: "label_free (assign_column ''Property_Urban'' astype_int e)"
      if "assign_column ''Property_Rural'' astype_int ?c = Inr d"
         "assign_column ''Property_Semiurban'' astype_int d = Inr e" for d e
    proof -
      from that have "has_col e ''Property_Urban''"
        using h(3) by (auto simp: assign_column_Inr has_col_setitem)
      then show ?thesis by (rule label_free_assign_column) (rule label_free_astype_int)
    qed
    show ?thesis
    proof (rule label_free_run_steps_Cons)
      show "label_free (assign_column ''Property_Rural'' astype_int ?c)" by (rule a)
    next
      fix d assume d: "assign_column ''Property_Rural'' astype_int ?c = Inr d"
      show "label_free (run_steps [assign_column ''Property_Semiurban'' astype_int,
              assign_column ''Property_Urban'' astype_int] d)"
      proof (rule label_free_run_steps_Cons)
        show "label_free (assign_column ''Property_Semiurban'' astype_int d)" by (rule b[OF d])
      next
        fix e assume e: "assign_column ''Property_Semiurban'' astype_int d = Inr e"
        show "label_free (run_steps [assign_column ''Property_Urban'' astype_int] e)"
        proof (rule label_free_run_steps_Cons)
          show "label_free (assign_column ''Property_Urban'' astype_int e)" by (rule c[OF d e])
        qed (simp add: label_free_Inr)
      qed
    qed
  qed
  have eq: "one_hot_Property_Area df =
      ebind (select_columns D property_columns) (\<lambda>sel. run_steps
          [assign_column ''Property_Rural'' astype_int,
           assign_column ''Property_Semiurban'' astype_int,
           assign_column ''Property_Urban'' astype_int]
          (concat_columns (drop_ignore df [''Property_Area'']) sel))"
    using True pa
    by (simp add: one_hot_Property_Area_def Let_def drop_columns_single D_def[symmetric])
  show ?thesis
    unfolding eq by (rule label_free_ebind) (rule sel, rule fin)
qed

lemma label_free_sections:
  "s \<in> set (imputations @ dependents_cleanup rd) \<Longrightarrow> label_free (s d)"
  "s \<in> set (applicant_to_coapp_ratio # outlier_capping @ categorical_mappings @
        [one_hot_Property_Area] @ target_mapping) \<Longrightarrow> label_free (s d)"
  by (auto simp: section_defs label_free_update_column label_free_column
        label_free_applicant_to_coapp_ratio label_free_one_hot)

lemma cleaning_steps_split:
  "cleaning_steps rd =
     (imputations @ dependents_cleanup rd) @ [total_income] @ [income_to_loan_ratio] @
     (applicant_to_coapp_ratio # outlier_capping @ categorical_mappings @
        [one_hot_Property_Area] @ target_mapping)"
  by (simp add: cleaning_steps_def assignments_1_to_5_def engineered_features_def)

lemma label_free_clean_raw_df: "label_free (clean_raw_df rd df)"
proof -
  let ?post = "applicant_to_coapp_ratio # outlier_capping @ categorical_mappings @
        [one_hot_Property_Area] @ target_mapping"
  have post: "label_free (run_steps ?post d)" for d
    by (rule label_free_run_steps) (rule label_free_sections)
  have ratio: "label_free (run_steps (income_to_loan_ratio # ?post) e)"
    if "total_income d = Inr e" for d e
  proof (rule label_free_run_steps_Cons)
    from that have "has_col e ''TotalIncome''"
      by (auto dest!: total_income_Inr simp: has_col_setitem)
    then show "label_free (income_to_loan_ratio e)" by (rule label_free_income_to_loan_ratio)
  qed (rule post)
  have total: "label_free (run_steps (total_income # income_to_loan_ratio # ?post) d)" for d
    by (rule label_free_run_steps_Cons) (rule label_free_total_income, rule ratio)
  have "label_free (run_steps ((imputations @ dependents_cleanup rd) @
          (total_income # income_to_loan_ratio # ?post)) df)"
  proof (rule label_free_run_steps_append)
    show "label_free (run_steps (imputations @ dependents_cleanup rd) df)"
      by (rule label_free_run_steps) (rule label_free_sections)
  qed (rule total)
  then show ?thesis
    by (simp add: clean_raw_df_def cleaning_steps_split)
qed

subsection \<open>The frame between the sections\<close>

lemma preserves_shape_update_column:
  "preserves (\<lambda>d. columns d = cs \<and> nrows d = n) (update_column c f)"
  unfolding preserves_def by (auto dest: update_column_columns update_column_nrows)

lemma shape_before_features:
  assumes "run_steps (imputations @ dependents_cleanup rd) df = Inr d"
  shows "columns d = columns df" "nrows d = nrows df"
proof -
  have "list_all (preserves (\<lambda>d. columns d = columns df \<and> nrows d = nrows df))
          (imputations @ dependents_cleanup rd)"
    by (simp add: section_defs preserves_shape_update_column)
  from preserves_run_steps[OF this] assms
  show "columns d = columns df" "nrows d = nrows df"
    unfolding preserves_def by blast+
qed

lemma keeps_D:
  "keeps c s \<Longrightarrow> s df = Inr df' \<Longrightarrow> map_of (cols df') c = map_of (cols df) c"
  by (simp add: keeps_def)

lemma preserves_nrows_steps:
  "preserves (\<lambda>d. nrows d = n) (update_column c f)"
  "preserves (\<lambda>d. nrows d = n) total_income"
  "preserves (\<lambda>d. nrows d = n) income_to_loan_ratio"
  "preserves (\<lambda>d. nrows d = n) applicant_to_coapp_ratio"
  "preserves (\<lambda>d. nrows d = n) one_hot_Property_Area"
  unfolding preserves_def by (auto dest: nrows_step)

lemma preserves_columns_within:
  assumes "{''TotalIncome'', ''Income_to_Loan_Ratio'', ''Applicant_to_Coapp_Ratio''} \<subseteq> S"
  shows "preserves (\<lambda>d. set (columns d) \<subseteq> S) (update_column c f)"
    and "preserves (\<lambda>d. set (columns d) \<subseteq> S) total_income"
    and "preserves (\<lambda>d. set (columns d) \<subseteq> S) income_to_loan_ratio"
    and "preserves (\<lambda>d. set (columns d) \<subseteq> S) applicant_to_coapp_ratio"
proof -
  show "preserves (\<lambda>d. set (columns d) \<subseteq> S) (update_column c f)"
    unfolding preserves_def by (simp add: update_column_columns)
  show "preserves (\<lambda>d. set (columns d) \<subseteq> S) total_income"
    using assms unfolding preserves_def
    by (auto dest!: total_income_Inr simp: columns_setitem split: if_splits)
  show "preserves (\<lambda>d. set (columns d) \<subseteq> S) income_to_loan_ratio"
    using assms unfolding preserves_def
    by (auto dest!: income_to_loan_ratio_Inr simp: columns_setitem has_col_setitem split: if_splits)
  show "preserves (\<lambda>d. set (columns d) \<subseteq> S) applicant_to_coapp_ratio"
    using assms unfolding preserves_def
    by (auto dest!: applicant_to_coapp_ratio_Inr simp: columns_setitem split: if_splits)
qed

lemma assignments_1_to_5_frame:
  assumes "run_steps (assignments_1_to_5 rd) df = Inr d"
  shows "nrows d = nrows df"
    and "set (columns d) \<subseteq> set (columns df) \<union>
           {''TotalIncome'', ''Income_to_Loan_Ratio'', ''Applicant_to_Coapp_Ratio''}"
    and "map_of (cols d) ''Property_Area'' = map_of (cols df) ''Property_Area''"
    and "c \<in> set property_columns \<Longrightarrow> map_of (cols d) c = map_of (cols df) c"
proof -
  have "list_all (preserves (\<lambda>d. nrows d = nrows df)) (assignments_1_to_5 rd)"
    by (simp add: assignments_1_to_5_def section_defs preserves_nrows_steps)
  from preserves_run_steps[OF this] assms show "nrows d = nrows df"
    unfolding preserves_def by blast
  let ?S = "set (columns df) \<union> {''TotalIncome'', ''Income_to_Loan_Ratio'', ''Applicant_to_Coapp_Ratio''}"
  have "list_all (preserves (\<lambda>d. set (columns d) \<subseteq> ?S)) (assignments_1_to_5 rd)"
    by (simp add: assignments_1_to_5_def section_defs preserves_columns_within)
  from preserves_run_steps[OF this] assms show "set (columns d) \<subseteq> ?S"
    unfolding preserves_def by blast
  have "keeps ''Property_Area'' (run_steps (assignments_1_to_5 rd))"
    by (rule keeps_run_steps) (simp add: assignments_1_to_5_def section_defs keeps_step)
  from keeps_D[OF this assms] show "map_of (cols d) ''Property_Area'' = map_of (cols df) ''Property_Area''" .
  assume "c \<in> set property_columns"
  then have "keeps c (run_steps (assignments_1_to_5 rd))"
    by (intro keeps_run_steps) (auto simp: assignments_1_to_5_def section_defs keeps_step property_columns_def)
  from keeps_D[OF this assms] show "map_of (cols d) c = map_of (cols df) c" .
qed

lemma wf_frame_length: "wf_frame df \<Longrightarrow> map_of (cols df) c = Some col \<Longrightarrow> length col = nrows df"
  by (auto simp: wf_frame_def list_all_iff dest!: map_of_SomeD)

lemma filter_out_subset:
  "set xs \<subseteq> A \<union> B \<Longrightarrow> p \<notin> B \<Longrightarrow> set (filter (\<lambda>c. c \<noteq> p) xs) \<subseteq> A - {p} \<union> B"
  by auto

lemma Property_Area_indicators:
  assumes wf: "wf_frame df"
    and pa: "getitem df ''Property_Area'' = Inr pa"
    and fresh: "\<forall>c\<in>set property_columns. \<not> has_col df c"
    and run: "clean_raw_df rd df = Inr out"
  shows "getitem out ''Property_Rural'' = Inr (indicator (Str ''Rural'') pa)"
    and "getitem out ''Property_Semiurban'' = Inr (indicator (Str ''Semiurban'') pa)"
    and "getitem out ''Property_Urban'' = Inr (indicator (Str ''Urban'') pa)"
    and "\<not> has_col out ''Property_Area''"
    and "\<exists>rest. columns out = rest @ property_columns \<and>
        set rest \<subseteq> set (columns df) - {''Property_Area''} \<union>
           {''TotalIncome'', ''Income_to_Loan_Ratio'', ''Applicant_to_Coapp_Ratio''}"
    and "length pa = nrows df"
proof -
  from run obtain d5 d6 where
    d5: "run_steps (assignments_1_to_5 rd) df = Inr d5" and
    d6: "one_hot_Property_Area d5 = Inr d6" and
    out: "run_steps target_mapping d6 = Inr out"
    unfolding clean_raw_df_def cleaning_steps_def run_steps_append_Inr run_steps_single
    by blast
  note fr = assignments_1_to_5_frame[OF d5]
  from pa have pa0: "map_of (cols df) ''Property_Area'' = Some pa"
    by (simp add: getitem_Inr_iff)
  then have pa5: "map_of (cols d5) ''Property_Area'' = Some pa"
    by (simp add: fr(3))
  have len: "length pa = nrows d5"
    using wf_frame_length[OF wf pa0] by (simp add: fr(1))
  have fresh5: "\<forall>c\<in>set property_columns. \<not> has_col d5 c"
    using fresh fr(4) by (simp add: has_col_iff)
  note oh = one_hot_present[OF d6 pa5 len fresh5]
  from out have out': "update_column ''Loan_Status'' map_Loan_Status d6 = Inr out"
    unfolding target_mapping_def run_steps_single .
  have tm: "out = d6 \<or> (\<exists>col. out = setitem d6 ''Loan_Status'' col)"
    using out'
    by (cases "has_col d6 ''Loan_Status''")
       (auto simp: update_column_present update_column_missing)
  have cols_out: "columns out = columns d6"
    using out' by (rule update_column_columns)
  have look: "map_of (cols out) c = map_of (cols d6) c" if "c \<noteq> ''Loan_Status''" for c
    using tm that by (auto simp: lookup_setitem)
  have r: "getitem out ''Property_Rural'' = Inr (indicator (Str ''Rural'') pa)"
    and s: "getitem out ''Property_Semiurban'' = Inr (indicator (Str ''Semiurban'') pa)"
    and u: "getitem out ''Property_Urban'' = Inr (indicator (Str ''Urban'') pa)"
    by (simp_all add: getitem_Inr_iff look oh)
  have no_pa: "\<not> has_col out ''Property_Area''"
    by (simp add: has_col_iff look oh)
  have rest: "set (filter (\<lambda>c. c \<noteq> ''Property_Area'') (columns d5)) \<subseteq>
      set (columns df) - {''Property_Area''} \<union>
           {''TotalIncome'', ''Income_to_Loan_Ratio'', ''Applicant_to_Coapp_Ratio''}"
    by (rule filter_out_subset[OF fr(2)]) simp
  have n: "length pa = nrows df" using len fr(1) by simp
  show "getitem out ''Property_Rural'' = Inr (indicator (Str ''Rural'') pa)" by (rule r)
  show "getitem out ''Property_Semiurban'' = Inr (indicator (Str ''Semiurban'') pa)" by (rule s)
  show "getitem out ''Property_Urban'' = Inr (indicator (Str ''Urban'') pa)" by (rule u)
  show "\<not> has_col out ''Property_Area''" by (rule no_pa)
  show "length pa = nrows df" by (rule n)
  show "\<exists>rest. columns out = rest @ property_columns \<and>
        set rest \<subseteq> set (columns df) - {''Property_Area''} \<union>
           {''TotalIncome'', ''Income_to_Loan_Ratio'', ''Applicant_to_Coapp_Ratio''}"
    by (rule exI[of _ "filter (\<lambda>c. c \<noteq> ''Property_Area'') (columns d5)"])
       (simp only: rest oh(5) cols_out simp_thms)
qed

subsection \<open>Who writes a column last\<close>



subsection \<open>What the column functions return\<close>


subsection \<open>The Dependents column\<close>








subsection \<open>The function on references\<close>

lemma writes_above_in_place: "writes_above n (in_place step)"
  unfolding writes_above_def in_place_def
  by (auto split: sum.splits)

lemma writes_above_one_hot_ref: "writes_above n one_hot_ref"
  unfolding writes_above_def one_hot_ref_def alloc_def
  by (auto split: sum.splits if_splits)

lemma writes_above_run:
  assumes "list_all (writes_above n) sts"
  shows "writes_above n (run_ref_steps sts)"
  using assms
proof (induction sts)
  case Nil
  show ?case by (simp add: writes_above_def)
next
  case (Cons st sts)
  then have a: "writes_above n st" and b: "writes_above n (run_ref_steps sts)" by simp_all
  show ?case
    unfolding writes_above_def
  proof (intro allI impI)
    fix r s res s'
    assume run: "run_ref_steps (st # sts) r s = (res, s')" and n: "n \<le> r" and r: "r < fresh s"
    obtain res1 s1 where st: "st r s = (res1, s1)" by (cases "st r s")
    from a st n r have a1: "fresh s \<le> fresh s1" "\<forall>a<n. objects s1 a = objects s a"
      "\<forall>r'. res1 = Inr r' \<longrightarrow> n \<le> r' \<and> r' < fresh s1"
      unfolding writes_above_def by blast+
    show "fresh s \<le> fresh s' \<and> (\<forall>a<n. objects s' a = objects s a) \<and>
        (\<forall>r'. res = Inr r' \<longrightarrow> n \<le> r' \<and> r' < fresh s')"
    proof (cases res1)
      case (Inl e)
      with run st have "res = Inl e" "s' = s1" by simp_all
      with a1 show ?thesis by simp
    next
      case (Inr r1)
      with run st have rest: "run_ref_steps sts r1 s1 = (res, s')" by simp
      from a1(3) Inr have "n \<le> r1" "r1 < fresh s1" by simp_all
      with b rest have "fresh s1 \<le> fresh s'" "\<forall>a<n. objects s' a = objects s1 a"
        "\<forall>r'. res = Inr r' \<longrightarrow> n \<le> r' \<and> r' < fresh s'"
        unfolding writes_above_def by blast+
      with a1 show ?thesis by simp
    qed
  qed
qed

lemma implements_in_place: "implements (in_place step) step"
  unfolding implements_def in_place_def by (auto split: sum.splits)

lemma implements_one_hot_ref: "implements one_hot_ref one_hot_Property_Area"
  unfolding implements_def one_hot_ref_def alloc_def
  by (auto split: sum.splits if_splits simp: one_hot_absent)

lemma implements_run:
  assumes "list_all2 implements sts steps"
  shows "implements (run_ref_steps sts) (run_steps steps)"
  using assms
proof (induction sts steps rule: list_all2_induct)
  case Nil
  show ?case by (simp add: implements_def)
next
  case (Cons st sts step steps)
  show ?case
    unfolding implements_def
  proof (intro allI impI)
    fix r s res s'
    assume run: "run_ref_steps (st # sts) r s = (res, s')"
    obtain res1 s1 where st: "st r s = (res1, s1)" by (cases "st r s")
    with Cons.hyps(1) have h: "map_sum id (objects s1) res1 = step (objects s r)"
      unfolding implements_def by blast
    show "map_sum id (objects s') res = run_steps (step # steps) (objects s r)"
    proof (cases res1)
      case (Inl e)
      with run st have "res = Inl e" by simp
      with h Inl show ?thesis by (cases "step (objects s r)") auto
    next
      case (Inr r1)
      with run st have "run_ref_steps sts r1 s1 = (res, s')" by simp
      with Cons.IH have "map_sum id (objects s') res = run_steps steps (objects s1 r1)"
        unfolding implements_def by blast
      with h Inr show ?thesis by (cases "step (objects s r)") auto
    qed
  qed
qed

section \<open>The feature transformer: what it guarantees\<close>

text \<open>
  C10. Whenever the transformer returns, its output has the columns TotalIncome and
  Income_to_Loan_Ratio. When the batch lacks ApplicantIncome or CoapplicantIncome, TotalIncome
  is null in every row and so is the ratio; when it lacks LoanAmount, the ratio is null in
  every row. And no batch makes the transformer raise the \<open>KeyError\<close> of a missing column:
  every column it reads is either guarded by a presence check or was written before.
\<close>

theorem derived_columns_always_added:
  "label_free (clean_raw_df rd df) \<and>
   (\<forall>out. clean_raw_df rd df = Inr out \<longrightarrow>
      (\<exists>t r. getitem out ''TotalIncome'' = Inr t \<and> getitem out ''Income_to_Loan_Ratio'' = Inr r \<and>
         (\<not> (has_col df ''ApplicantIncome'' \<and> has_col df ''CoapplicantIncome'') \<longrightarrow>
            t = replicate (nrows df) Null \<and> list_all isnull r) \<and>
         (\<not> has_col df ''LoanAmount'' \<longrightarrow> r = replicate (nrows df) Null)))"
proof (intro conjI allI impI)
  show "label_free (clean_raw_df rd df)" by (rule label_free_clean_raw_df)
next
  fix out assume run: "clean_raw_df rd df = Inr out"
  let ?post = "applicant_to_coapp_ratio # outlier_capping @ categorical_mappings @
        [one_hot_Property_Area] @ target_mapping"
  from run obtain d1 d2 d3 where
    d1: "run_steps (imputations @ dependents_cleanup rd) df = Inr d1" and
    d2: "total_income d1 = Inr d2" and
    d3: "income_to_loan_ratio d2 = Inr d3" and
    out: "run_steps ?post d3 = Inr out"
    unfolding clean_raw_df_def cleaning_steps_split run_steps_append_Inr run_steps_single
    by blast
  note sh = shape_before_features[OF d1]
  from total_income_Inr[OF d2] obtain t where
    t: "d2 = setitem d1 ''TotalIncome'' t"
       "\<not> (has_col d1 ''ApplicantIncome'' \<and> has_col d1 ''CoapplicantIncome'') \<longrightarrow> t = replicate (nrows d1) Null"
    by blast
  have t2: "map_of (cols d2) ''TotalIncome'' = Some t"
    by (simp add: t(1) lookup_setitem)
  from income_to_loan_ratio_Inr[OF d3] obtain la r where
    r: "d3 = setitem (if has_col d2 ''LoanAmount'' then setitem d2 ''LoanAmount'' la else d2)
                ''Income_to_Loan_Ratio'' r"
       "\<not> has_col d2 ''LoanAmount'' \<longrightarrow> r = replicate (nrows d2) Null"
       "\<forall>ti. map_of (cols d2) ''TotalIncome'' = Some ti \<longrightarrow> list_all isnull ti \<longrightarrow> list_all isnull r"
    by blast
  have t3: "map_of (cols d3) ''TotalIncome'' = Some t"
    using t2 by (simp add: r(1) lookup_setitem)
  have r3: "map_of (cols d3) ''Income_to_Loan_Ratio'' = Some r"
    by (simp add: r(1) lookup_setitem)
  have "keeps ''TotalIncome'' (run_steps ?post)" "keeps ''Income_to_Loan_Ratio'' (run_steps ?post)"
    by (rule keeps_run_steps, simp add: section_defs keeps_step property_columns_def)+
  from keeps_D[OF this(1) out] keeps_D[OF this(2) out] t3 r3
  have fin: "getitem out ''TotalIncome'' = Inr t" "getitem out ''Income_to_Loan_Ratio'' = Inr r"
    by (simp_all add: getitem_Inr_iff)
  have has1: "has_col d1 c = has_col df c" for c
    by (simp add: has_col_def sh)
  have has2: "has_col d2 ''LoanAmount'' = has_col df ''LoanAmount''"
    by (simp add: t(1) has_col_setitem has1)
  have n2: "nrows d2 = nrows df"
    by (simp add: t(1) nrows_setitem sh)
  have a: "t = replicate (nrows df) Null \<and> list_all isnull r"
    if "\<not> (has_col df ''ApplicantIncome'' \<and> has_col df ''CoapplicantIncome'')"
  proof -
    from that t(2) have tn: "t = replicate (nrows df) Null" by (simp add: has1 sh)
    then have "list_all isnull t" by (simp add: list_all_iff isnull_def)
    with r(3) t2 have "list_all isnull r" by blast
    with tn show ?thesis by simp
  qed
  have b: "r = replicate (nrows df) Null" if "\<not> has_col df ''LoanAmount''"
    using that r(2) by (simp add: has2 n2)
  show "\<exists>t r. getitem out ''TotalIncome'' = Inr t \<and> getitem out ''Income_to_Loan_Ratio'' = Inr r \<and>
         (\<not> (has_col df ''ApplicantIncome'' \<and> has_col df ''CoapplicantIncome'') \<longrightarrow>
            t = replicate (nrows df) Null \<and> list_all isnull r) \<and>
         (\<not> has_col df ''LoanAmount'' \<longrightarrow> r = replicate (nrows df) Null)"
    using fin a b by blast
qed

text \<open>
  The theorem at a batch of two records that has neither income nor LoanAmount
  columns: the transformer returns, and both derived columns are null.
\<close>

theorem derived_columns_always_added_witness:
  "\<not> has_col batch_without_income ''ApplicantIncome'' \<and>
   \<not> has_col batch_without_income ''LoanAmount'' \<and>
   label_free (clean_raw_df decimal_reader batch_without_income) \<and>
   cleaned_column decimal_reader batch_without_income ''TotalIncome'' = Inr [Null, Null] \<and>
   cleaned_column decimal_reader batch_without_income ''Income_to_Loan_Ratio'' = Inr [Null, Null]"
proof -
  have a: "\<not> has_col batch_without_income ''ApplicantIncome''"
    and b: "\<not> has_col batch_without_income ''LoanAmount''"
    and n: "nrows batch_without_income = 2"
    by (simp_all add: batch_without_income_def has_col_def columns_def)
  have "map_sum id nrows (clean_raw_df decimal_reader batch_without_income) = Inr 2" by code_simp
  then obtain out where out: "clean_raw_df decimal_reader batch_without_income = Inr out"
    by (cases "clean_raw_df decimal_reader batch_without_income") auto
  from derived_columns_always_added[of decimal_reader batch_without_income] out a b n
  have "label_free (clean_raw_df decimal_reader batch_without_income)"
    and "getitem out ''TotalIncome'' = Inr (replicate 2 Null)"
    and "getitem out ''Income_to_Loan_Ratio'' = Inr (replicate 2 Null)"
    by auto
  with a b out show ?thesis
    by (simp add: cleaned_column_def numeral_2_eq_2)
qed

text \<open>
  C6. For a well-formed batch with a Property_Area column (and no column already named
  like an indicator), whenever the transformer returns: the output has no Property_Area
  column; its columns end with Property_Rural, Property_Semiurban, Property_Urban and every
  other column is an input column or one of the three derived features, so no other
  indicator column exists; each indicator is 0 or 1 in every row, it is 1 exactly where the
  record's Property_Area is that category, at most one of the three is 1 in a row; and the
  indicator of a category that does not occur in the batch is 0 in every row.
\<close>

theorem Property_Area_one_hot:
  assumes wf: "wf_frame df"
    and pa: "getitem df ''Property_Area'' = Inr pa"
    and fresh: "\<forall>c\<in>set property_columns. \<not> has_col df c"
    and run: "clean_raw_df rd df = Inr out"
  shows "\<not> has_col out ''Property_Area'' \<and>
    (\<exists>rest. columns out = rest @ property_columns \<and>
        set rest \<subseteq> set (columns df) - {''Property_Area''} \<union>
           {''TotalIncome'', ''Income_to_Loan_Ratio'', ''Applicant_to_Coapp_Ratio''}) \<and>
    (\<exists>r s u.
        getitem out ''Property_Rural'' = Inr r \<and> getitem out ''Property_Semiurban'' = Inr s \<and>
        getitem out ''Property_Urban'' = Inr u \<and>
        length r = nrows df \<and> length s = nrows df \<and> length u = nrows df \<and>
        (\<forall>i<nrows df.
           is_bit (r ! i) \<and> is_bit (s ! i) \<and> is_bit (u ! i) \<and>
           length (filter (\<lambda>c. c = Num 1) [r ! i, s ! i, u ! i]) \<le> 1 \<and>
           (r ! i = Num 1 \<longleftrightarrow> pa ! i = Str ''Rural'') \<and>
           (s ! i = Num 1 \<longleftrightarrow> pa ! i = Str ''Semiurban'') \<and>
           (u ! i = Num 1 \<longleftrightarrow> pa ! i = Str ''Urban'')) \<and>
        (Str ''Rural'' \<notin> set pa \<longrightarrow> r = replicate (nrows df) (Num 0)) \<and>
        (Str ''Semiurban'' \<notin> set pa \<longrightarrow> s = replicate (nrows df) (Num 0)) \<and>
        (Str ''Urban'' \<notin> set pa \<longrightarrow> u = replicate (nrows df) (Num 0)))"
proof -
  note ind = Property_Area_indicators[OF wf pa fresh run]
  note n = ind(6)
  have rows: "is_bit (indicator v pa ! i)" if "i < nrows df" for v i
    using that n by (simp add: indicator_is_bit)
  have one: "(indicator v pa ! i = Num 1) \<longleftrightarrow> pa ! i = v" if "i < nrows df" for v i
    using that n by (simp add: indicator_one)
  have cnt: "length (filter (\<lambda>c. c = Num 1)
      [indicator (Str ''Rural'') pa ! i, indicator (Str ''Semiurban'') pa ! i,
       indicator (Str ''Urban'') pa ! i]) \<le> 1" if "i < nrows df" for i
    by (rule indicator_at_most_one) (simp_all add: that n)
  show ?thesis
  proof (intro conjI)
    show "\<not> has_col out ''Property_Area''" by (rule ind(4))
    show "\<exists>rest. columns out = rest @ property_columns \<and>
        set rest \<subseteq> set (columns df) - {''Property_Area''} \<union>
           {''TotalIncome'', ''Income_to_Loan_Ratio'', ''Applicant_to_Coapp_Ratio''}"
      by (rule ind(5))
    show "\<exists>r s u.
        getitem out ''Property_Rural'' = Inr r \<and> getitem out ''Property_Semiurban'' = Inr s \<and>
        getitem out ''Property_Urban'' = Inr u \<and>
        length r = nrows df \<and> length s = nrows df \<and> length u = nrows df \<and>
        (\<forall>i<nrows df.
           is_bit (r ! i) \<and> is_bit (s ! i) \<and> is_bit (u ! i) \<and>
           length (filter (\<lambda>c. c = Num 1) [r ! i, s ! i, u ! i]) \<le> 1 \<and>
           (r ! i = Num 1 \<longleftrightarrow> pa ! i = Str ''Rural'') \<and>
           (s ! i = Num 1 \<longleftrightarrow> pa ! i = Str ''Semiurban'') \<and>
           (u ! i = Num 1 \<longleftrightarrow> pa ! i = Str ''Urban'')) \<and>
        (Str ''Rural'' \<notin> set pa \<longrightarrow> r = replicate (nrows df) (Num 0)) \<and>
        (Str ''Semiurban'' \<notin> set pa \<longrightarrow> s = replicate (nrows df) (Num 0)) \<and>
        (Str ''Urban'' \<notin> set pa \<longrightarrow> u = replicate (nrows df) (Num 0))"
      apply (rule exI[of _ "indicator (Str ''Rural'') pa"])
      apply (rule exI[of _ "indicator (Str ''Semiurban'') pa"])
      apply (rule exI[of _ "indicator (Str ''Urban'') pa"])
      apply (simp only: ind(1,2,3) length_indicator n simp_thms)
      apply (intro conjI allI impI rows one cnt)
        apply (simp_all add: indicator_absent n)
      done
  qed
qed

text \<open>
  The theorem at a batch of three records with Property_Area Rural, Urban and null:
  no record is Semiurban, and that indicator is all zeros.
\<close>

theorem Property_Area_one_hot_witness:
  "wf_frame property_batch \<and>
   getitem property_batch ''Property_Area'' = Inr [Str ''Rural'', Str ''Urban'', Null] \<and>
   \<not> has_col property_batch ''Property_Rural'' \<and> \<not> has_col property_batch ''Property_Semiurban'' \<and>
   \<not> has_col property_batch ''Property_Urban'' \<and>
   map_sum id columns (clean_raw_df decimal_reader property_batch) =
     Inr [''TotalIncome'', ''Income_to_Loan_Ratio'', ''Property_Rural'', ''Property_Semiurban'',
          ''Property_Urban''] \<and>
   cleaned_column decimal_reader property_batch ''Property_Rural'' = Inr [Num 1, Num 0, Num 0] \<and>
   cleaned_column decimal_reader property_batch ''Property_Urban'' = Inr [Num 0, Num 1, Num 0] \<and>
   cleaned_column decimal_reader property_batch ''Property_Semiurban'' = Inr (replicate 3 (Num 0))"
proof -
  have wf: "wf_frame property_batch"
    by (simp add: property_batch_def wf_frame_def columns_def)
  have pa: "getitem property_batch ''Property_Area'' = Inr [Str ''Rural'', Str ''Urban'', Null]"
    by (simp add: property_batch_def getitem_def)
  have fr: "\<not> has_col property_batch ''Property_Rural''" "\<not> has_col property_batch ''Property_Semiurban''"
    "\<not> has_col property_batch ''Property_Urban''"
    by (simp_all add: property_batch_def has_col_def columns_def)
  then have fresh: "\<forall>c\<in>set property_columns. \<not> has_col property_batch c"
    by (simp add: property_columns_def)
  have cs: "map_sum id columns (clean_raw_df decimal_reader property_batch) =
     Inr [''TotalIncome'', ''Income_to_Loan_Ratio'', ''Property_Rural'', ''Property_Semiurban'',
          ''Property_Urban'']"
    by code_simp
  then obtain out where out: "clean_raw_df decimal_reader property_batch = Inr out"
    by (cases "clean_raw_df decimal_reader property_batch") auto
  have r: "cleaned_column decimal_reader property_batch ''Property_Rural'' = Inr [Num 1, Num 0, Num 0]"
    and u: "cleaned_column decimal_reader property_batch ''Property_Urban'' = Inr [Num 0, Num 1, Num 0]"
    by code_simp+
  have n: "nrows property_batch = 3" by (simp add: property_batch_def)
  from Property_Area_one_hot[OF wf pa fresh out] obtain s where
    "getitem out ''Property_Semiurban'' = Inr s"
    "Str ''Semiurban'' \<notin> set [Str ''Rural'', Str ''Urban'', Null] \<longrightarrow> s = replicate (nrows property_batch) (Num 0)"
    by blast
  then have "cleaned_column decimal_reader property_batch ''Property_Semiurban'' = Inr (replicate 3 (Num 0))"
    using out n by (simp add: cleaned_column_def)
  with wf pa fr cs r u show ?thesis by simp
qed



text \<open>
  C3. Every value of the transformer's output is claimed to be numeric, with no null.
  For a single request without a LoanAmount the median that should fill the column is
  itself null: LoanAmount stays null, the fallback 1.0 of line 76 replaces zeros only, and
  the income-to-loan ratio is null. The frame handed to the model, from which the
  identifier is dropped, is then not all numeric, whereas for the example request it is.
\<close>

theorem null_LoanAmount_survives:
  "cleaned_column decimal_reader (DataFrame_of null_loan_application) ''LoanAmount'' = Inr [Null]
   \<and> cleaned_column decimal_reader (DataFrame_of null_loan_application) ''Income_to_Loan_Ratio'' = Inr [Null]
   \<and> map_sum id all_numeric (X_new decimal_reader null_loan_application) = Inr False
   \<and> map_sum id all_numeric (X_new decimal_reader example_application) = Inr True"
  by code_simp

text \<open>
  C4. LoanAmount is claimed to be non-zero after the transform. For a single request
  with LoanAmount 0 the median that replaces zeros is itself 0: the column stays 0 and
  the income-to-loan ratio is a division by zero.
\<close>

theorem zero_LoanAmount_survives:
  "cleaned_column decimal_reader (DataFrame_of zero_loan_application) ''LoanAmount'' = Inr [Num 0]
   \<and> cleaned_column decimal_reader (DataFrame_of zero_loan_application) ''Income_to_Loan_Ratio'' = Inr [Infty True]"
  by code_simp

text \<open>
  C5. The transform is claimed to complete on every batch. For a single request without
  a Loan_Amount_Term the mode of the column is empty and taking its first element
  raises; for a single request without a Credit_History, whose imputation checks for the
  empty mode, the transform returns and the column holds the default 1.
\<close>

theorem null_Loan_Amount_Term_raises:
  "clean_raw_df decimal_reader (DataFrame_of no_term_application) = Inl (KeyError (Pos 0))
   \<and> cleaned_column decimal_reader (DataFrame_of no_credit_application) ''Credit_History'' = Inr [Num 1]"
  by code_simp

text \<open>
  C8. Called on a reference to a frame, the transformer works on a copy: every object
  that existed before the call, the input among them, is the same after it, whether the
  call returns or raises; the reference it returns is a new one, and the frame found
  there is the value that \<open>clean_raw_df\<close> computes from the input frame.
\<close>

theorem clean_raw_df_ref_leaves_input:
  assumes "r < fresh s" and "clean_raw_df_ref rd r s = (res, s')"
  shows "(\<forall>a<fresh s. objects s' a = objects s a) \<and>
         (\<forall>r'. res = Inr r' \<longrightarrow> r' \<noteq> r \<and> fresh s \<le> r') \<and>
         map_sum id (objects s') res = clean_raw_df rd (objects s r)"
proof -
  let ?sts = "map in_place (assignments_1_to_5 rd) @ [one_hot_ref] @ map in_place target_mapping"
  define s1 where "s1 = s\<lparr>fresh := Suc (fresh s), objects := (objects s)(fresh s := objects s r)\<rparr>"
  from assms(2) have run: "run_ref_steps ?sts (fresh s) s1 = (res, s')"
    by (simp add: clean_raw_df_ref_def alloc_def s1_def)
  have "list_all (writes_above (fresh s)) ?sts"
    by (auto simp: list_all_iff writes_above_in_place writes_above_one_hot_ref)
  from writes_above_run[OF this] run
  have w: "\<forall>a<fresh s. objects s' a = objects s1 a" "\<forall>r'. res = Inr r' \<longrightarrow> fresh s \<le> r'"
    unfolding writes_above_def by (auto simp: s1_def)
  have "list_all2 implements ?sts (assignments_1_to_5 rd @ [one_hot_Property_Area] @ target_mapping)"
    by (intro list_all2_appendI)
       (simp_all add: list_all2_map1 list_all2_refl implements_in_place implements_one_hot_ref)
  from implements_run[OF this] run
  have "map_sum id (objects s') res = run_steps (cleaning_steps rd) (objects s1 (fresh s))"
    unfolding implements_def cleaning_steps_def by blast
  then have v: "map_sum id (objects s') res = clean_raw_df rd (objects s r)"
    by (simp add: clean_raw_df_def s1_def)
  from w(1) have "\<forall>a<fresh s. objects s' a = objects s a" by (simp add: s1_def)
  with w(2) v assms(1) show ?thesis by auto
qed

text \<open>
  The theorem at a store holding the example request at reference 0: the call returns
  reference 2 (the copy is 1, the concatenated frame 2), and reference 0 still holds the
  request.
\<close>

theorem clean_raw_df_ref_leaves_input_witness:
  "0 < fresh example_store \<and>
   fst (clean_raw_df_ref decimal_reader 0 example_store) = Inr 2 \<and>
   objects (snd (clean_raw_df_ref decimal_reader 0 example_store)) 0 = DataFrame_of example_application"
proof -
  have a: "0 < fresh example_store" by (simp add: example_store_def)
  have b: "fst (clean_raw_df_ref decimal_reader 0 example_store) = Inr 2" by code_simp
  have c: "clean_raw_df_ref decimal_reader 0 example_store =
      (fst (clean_raw_df_ref decimal_reader 0 example_store), snd (clean_raw_df_ref decimal_reader 0 example_store))"
    by simp
  from clean_raw_df_ref_leaves_input[OF a c] a
  have "objects (snd (clean_raw_df_ref decimal_reader 0 example_store)) 0 = objects example_store 0"
    by blast
  then have "objects (snd (clean_raw_df_ref decimal_reader 0 example_store)) 0 = DataFrame_of example_application"
    by (simp add: example_store_def)
  with a b show ?thesis by simp
qed

section \<open>The inference endpoint: what it does\<close>

text \<open>
  C1. The endpoint is claimed to align the cleaned one-row frame with the persisted
  feature list (insert absent columns with 0, drop the others, reorder) before calling
  the model. The code loads the list and never uses it. Training on a file whose columns
  begin Married, Gender persists a feature list in that order; the endpoint then still
  hands the model the columns in the order of the request's fields, Gender first, and
  the probe answers 0: the frame it received does not have the persisted columns.
\<close>

theorem predict_loan_status_ignores_feature_cols:
  "fst (train_and_save decimal_reader constant_fit ''data/raw/loan_train.csv'' ''models/model.pkl''
          ''models/features.pkl'' reordered_filesystem) = Inr (0, example_feature_cols, 1)
   \<and> map_sum id columns (X_new decimal_reader example_application) =
     Inr [''Gender'', ''Married'', ''Dependents'', ''Education'', ''Self_Employed'',
          ''ApplicantIncome'', ''CoapplicantIncome'', ''LoanAmount'', ''Loan_Amount_Term'',
          ''Credit_History'', ''TotalIncome'', ''Income_to_Loan_Ratio'',
          ''Applicant_to_Coapp_Ratio'', ''Property_Rural'', ''Property_Semiurban'',
          ''Property_Urban'']
   \<and> predict_loan_status decimal_reader (alignment_probe example_feature_cols) example_feature_cols
         example_application =
       Inr \<lparr>prediction = 0, probability = 1 / 2\<rparr>"
  by code_simp

text \<open>
  C2. The returned class is claimed to be 1 exactly when the returned probability is at
  least 0.5. The code computes that thresholded value and does not return it: the
  response carries the model's own \<open>predict\<close> answer, here class 0 beside probability 0.5.
\<close>

theorem predict_loan_status_returns_model_class:
  "predict_loan_status decimal_reader boundary_model example_feature_cols example_application =
     Inr \<lparr>prediction = 0, probability = 1 / 2\<rparr>"
  by code_simp

section \<open>The training orchestrator: what it guarantees\<close>

text \<open>
  On success both artifacts are written.
\<close>

lemma train_and_save_persists:
  assumes "train_and_save rd fit raw_csv_path out_model_path out_features_path fs =
      (Inr (clf, feature_cols, auc), fs')"
  shows "files fs' out_features_path = Some (Pickled_features feature_cols)"
    and "out_model_path \<noteq> out_features_path \<Longrightarrow> files fs' out_model_path = Some (Pickled_model clf)"
  using assms
  by (auto simp: train_and_save_def makedirs_def dump_def Let_def
      split: sum.splits prod.splits if_splits)

text \<open>
  The three statements of lines 110 to 112 are not one step: with a feature-list path
  in a directory that does not exist, training raises when it writes the list, and the
  model file is written by then.
\<close>

lemma train_and_save_partial_write:
  "fst (train_and_save decimal_reader constant_fit ''data/raw/loan_train.csv'' ''models/model.pkl''
          ''artifacts/features.pkl'' reordered_filesystem) = Inl FileNotFoundError
   \<and> files (snd (train_and_save decimal_reader constant_fit ''data/raw/loan_train.csv'' ''models/model.pkl''
          ''artifacts/features.pkl'' reordered_filesystem)) ''models/model.pkl'' = Some (Pickled_model 0)"
  by code_simp

text \<open>
  C9 as stated does not hold: the label check does not come before any computation.
  The file is read and cleaned first, so for a training file without the label column
  in which Loan_Amount_Term is null in every row, the transformer raises its
  \<open>KeyError\<close> and the \<open>ValueError\<close> of the missing label is never raised.
\<close>

theorem label_check_follows_cleaning:
  "has_col batch_without_term ''Loan_Status'' = False
   \<and> fst (train_and_save decimal_reader constant_fit ''data/raw/loan_train.csv'' ''models/model.pkl''
          ''models/features.pkl'' unlabelled_null_filesystem) = Inl (KeyError (Pos 0))"
  by code_simp

text \<open>
  C9, amended. When the training path does not exist, \<open>train_and_save\<close> raises
  \<open>FileNotFoundError\<close> before anything else. When the training file is read and the
  transformer returns a cleaned frame without a Loan_Status column, it raises \<open>ValueError\<close>:
  after reading and cleaning, and before the target is prepared, the learner is called or
  anything is written. When the transformer itself raises on the file, that error is
  raised instead. In the three cases the result is the same for every learner and every
  output path, and the file system is returned as it was.
\<close>

theorem train_and_save_missing_inputs:
  "(\<not> path_exists fs raw_csv_path \<longrightarrow>
      train_and_save rd fit raw_csv_path out_model_path out_features_path fs = (Inl FileNotFoundError, fs)) \<and>
   (\<forall>df_raw df. files fs raw_csv_path = Some (Csv df_raw) \<longrightarrow> clean_raw_df rd df_raw = Inr df \<longrightarrow>
      \<not> has_col df ''Loan_Status'' \<longrightarrow>
      train_and_save rd fit raw_csv_path out_model_path out_features_path fs = (Inl ValueError, fs)) \<and>
   (\<forall>df_raw e. files fs raw_csv_path = Some (Csv df_raw) \<longrightarrow> clean_raw_df rd df_raw = Inl e \<longrightarrow>
      train_and_save rd fit raw_csv_path out_model_path out_features_path fs = (Inl e, fs))"
  by (auto simp: train_and_save_def path_exists_def read_csv_def prepare_def)

text \<open>
  The theorem at an empty file system, at one whose training file has no label
  column, and at one whose label-less training file makes the transformer raise.
\<close>

theorem train_and_save_missing_inputs_witness:
  "\<not> path_exists empty_filesystem ''data/raw/loan_train.csv'' \<and>
   train_and_save decimal_reader constant_fit ''data/raw/loan_train.csv'' ''models/model.pkl''
      ''models/features.pkl'' empty_filesystem = (Inl FileNotFoundError, empty_filesystem) \<and>
   files unlabelled_filesystem ''data/raw/loan_train.csv'' = Some (Csv batch_without_income) \<and>
   map_sum id (\<lambda>df. has_col df ''Loan_Status'') (clean_raw_df decimal_reader batch_without_income) = Inr False \<and>
   train_and_save decimal_reader constant_fit ''data/raw/loan_train.csv'' ''models/model.pkl''
      ''models/features.pkl'' unlabelled_filesystem = (Inl ValueError, unlabelled_filesystem) \<and>
   files unlabelled_null_filesystem ''data/raw/loan_train.csv'' = Some (Csv batch_without_term) \<and>
   clean_raw_df decimal_reader batch_without_term = Inl (KeyError (Pos 0)) \<and>
   train_and_save decimal_reader constant_fit ''data/raw/loan_train.csv'' ''out/model.pkl''
      ''out/features.pkl'' unlabelled_null_filesystem = (Inl (KeyError (Pos 0)), unlabelled_null_filesystem)"
proof -
  have a: "\<not> path_exists empty_filesystem ''data/raw/loan_train.csv''"
    by (simp add: empty_filesystem_def path_exists_def is_dir_def)
  have b: "files unlabelled_filesystem ''data/raw/loan_train.csv'' = Some (Csv batch_without_income)"
    by (simp add: unlabelled_filesystem_def training_filesystem_def)
  have c: "map_sum id (\<lambda>df. has_col df ''Loan_Status'') (clean_raw_df decimal_reader batch_without_income) = Inr False"
    by code_simp
  then obtain df where d: "clean_raw_df decimal_reader batch_without_income = Inr df" "\<not> has_col df ''Loan_Status''"
    by (cases "clean_raw_df decimal_reader batch_without_income") auto
  have g: "files unlabelled_null_filesystem ''data/raw/loan_train.csv'' = Some (Csv batch_without_term)"
    by (simp add: unlabelled_null_filesystem_def training_filesystem_def)
  have h: "clean_raw_df decimal_reader batch_without_term = Inl (KeyError (Pos 0))"
    by code_simp
  note t1 = train_and_save_missing_inputs[where fs = empty_filesystem and rd = decimal_reader
      and raw_csv_path = "''data/raw/loan_train.csv''" and fit = constant_fit
      and out_model_path = "''models/model.pkl''" and out_features_path = "''models/features.pkl''"]
  note t2 = train_and_save_missing_inputs[where fs = unlabelled_filesystem and rd = decimal_reader
      and raw_csv_path = "''data/raw/loan_train.csv''" and fit = constant_fit
      and out_model_path = "''models/model.pkl''" and out_features_path = "''models/features.pkl''"]
  note t3 = train_and_save_missing_inputs[where fs = unlabelled_null_filesystem and rd = decimal_reader
      and raw_csv_path = "''data/raw/loan_train.csv''" and fit = constant_fit
      and out_model_path = "''out/model.pkl''" and out_features_path = "''out/features.pkl''"]
  from t1 a have e: "train_and_save decimal_reader constant_fit ''data/raw/loan_train.csv'' ''models/model.pkl''
      ''models/features.pkl'' empty_filesystem = (Inl FileNotFoundError, empty_filesystem)" by blast
  from t2 b d have f: "train_and_save decimal_reader constant_fit ''data/raw/loan_train.csv'' ''models/model.pkl''
      ''models/features.pkl'' unlabelled_filesystem = (Inl ValueError, unlabelled_filesystem)" by blast
  from t3 g h have i: "train_and_save decimal_reader constant_fit ''data/raw/loan_train.csv'' ''out/model.pkl''
      ''out/features.pkl'' unlabelled_null_filesystem = (Inl (KeyError (Pos 0)), unlabelled_null_filesystem)" by blast
  from a b c e f g h i show ?thesis by simp
qed

end
